theory Spec2Isabelle
  imports Main "HOL-Library.Sublist" "HOL-Library.Multiset"
begin

section \<open>Data model (types.ts)\<close>

text \<open>
  \<^verbatim>\<open>RegionTLD\<close> is a union of six string literals. The datatype lists them and
  \<open>tld_string\<close> gives the literal that a template string interpolates.
\<close>

datatype RegionTLD = com | eu | ca | asia | com_au | sg

fun tld_string :: "RegionTLD \<Rightarrow> string" where
  "tld_string com = ''com''"
| "tld_string eu = ''eu''"
| "tld_string ca = ''ca''"
| "tld_string asia = ''asia''"
| "tld_string com_au = ''com.au''"
| "tld_string sg = ''sg''"

record EnvConfig =
  name :: string
  envId :: string
  clientId :: string
  clientSecret :: string
  tld :: RegionTLD

record TokenResponse =
  access_token :: string
  expires_in :: int

record TokenCache =
  token :: string
  expiresAt :: int

section \<open>URL builders and the envId check (config.ts)\<close>

definition buildAuthUrl :: "string \<Rightarrow> RegionTLD \<Rightarrow> string" where
  "buildAuthUrl eid t = ''https://auth.pingone.'' @ tld_string t @ ''/'' @ eid @ ''/as/token''"

definition buildApiUrl :: "RegionTLD \<Rightarrow> string" where
  "buildApiUrl t = ''https://api.pingone.'' @ tld_string t @ ''/v1''"

text \<open>
  \<open>validateEnvironment\<close> accepts an \<open>envId\<close> only when it matches
  \<^verbatim>\<open>/^[0-9a-f]{8}-[0-9a-f]{4}-[0-9a-f]{4}-[0-9a-f]{4}-[0-9a-f]{12}$/i\<close>.
\<close>

definition is_hex :: "char \<Rightarrow> bool" where
  "is_hex c = (c \<in> set ''0123456789abcdefABCDEF'')"

definition uuidRegex_test :: "string \<Rightarrow> bool" where
  "uuidRegex_test s =
     (length s = 36 \<and>
      list_all is_hex (take 8 s) \<and> s ! 8 = CHR ''-'' \<and>
      list_all is_hex (take 4 (drop 9 s)) \<and> s ! 13 = CHR ''-'' \<and>
      list_all is_hex (take 4 (drop 14 s)) \<and> s ! 18 = CHR ''-'' \<and>
      list_all is_hex (take 4 (drop 19 s)) \<and> s ! 23 = CHR ''-'' \<and>
      list_all is_hex (drop 24 s))"

section \<open>Base64 of a byte string\<close>

text \<open>
  \<^verbatim>\<open>Buffer.from(s).toString('base64')\<close> is the padded base64 encoding (RFC 4648) of
  the bytes of \<open>s\<close>. A \<open>string\<close> here is the list of those bytes.
\<close>

definition b64_alphabet :: string where
  "b64_alphabet = ''ABCDEFGHIJKLMNOPQRSTUVWXYZabcdefghijklmnopqrstuvwxyz0123456789+/''"

definition b64_digit :: "nat \<Rightarrow> char" where
  "b64_digit n = b64_alphabet ! (n mod 64)"

fun base64 :: "string \<Rightarrow> string" where
  "base64 [] = []"
| "base64 [a] =
     (let x = (of_char a :: nat)
      in [b64_digit (x div 4), b64_digit ((x mod 4) * 16), CHR ''='', CHR ''=''])"
| "base64 [a, b] =
     (let x = (of_char a :: nat); y = (of_char b :: nat)
      in [b64_digit (x div 4), b64_digit ((x mod 4) * 16 + y div 16),
          b64_digit ((y mod 16) * 4), CHR ''=''])"
| "base64 (a # b # c # rest) =
     (let x = (of_char a :: nat); y = (of_char b :: nat); z = (of_char c :: nat)
      in [b64_digit (x div 4), b64_digit ((x mod 4) * 16 + y div 16),
          b64_digit ((y mod 16) * 4 + z div 64), b64_digit (z mod 64)] @ base64 rest)"

section \<open>The token manager (auth.ts)\<close>

text \<open>
  What \<open>axios.post\<close> can do: resolve with a 2xx response, reject with an
  \<open>AxiosError\<close> (whose \<open>response\<close> is absent when no HTTP response arrived: the
  source reads it as \<^verbatim>\<open>error.response?.status\<close>), or fail with a value that is not
  an \<open>AxiosError\<close>.
\<close>

record ErrorResponse =
  status :: int
  error_description :: "string option"   \<comment> \<open>\<^verbatim>\<open>response.data?.error_description\<close>\<close>
  data_message :: "string option"        \<comment> \<open>\<^verbatim>\<open>response.data?.message\<close>\<close>

record TokenRequest =
  req_url :: string
  req_body :: string
  req_authorization :: string
  req_content_type :: string
  req_timeout :: nat

datatype post_outcome =
    Fulfilled TokenResponse
  | AxiosRejected "ErrorResponse option" string   \<comment> \<open>response, \<open>error.message\<close>\<close>
  | OtherRejected

type_synonym token_cache = "string \<rightharpoonup> TokenCache"

definition cacheKey :: "EnvConfig \<Rightarrow> string" where
  "cacheKey env = envId env @ '':'' @ clientId env"

definition tokenRequest :: "EnvConfig \<Rightarrow> TokenRequest" where
  "tokenRequest env =
     \<lparr> req_url = buildAuthUrl (envId env) (tld env),
       req_body = ''grant_type=client_credentials'',
       req_authorization = ''Basic '' @ base64 (clientId env @ '':'' @ clientSecret env),
       req_content_type = ''application/x-www-form-urlencoded'',
       req_timeout = 10000 \<rparr>"

text \<open>JavaScript's \<^verbatim>\<open>a || b\<close> on an optional string: the empty string is falsy too.\<close>

definition or_else :: "string option \<Rightarrow> string \<Rightarrow> string" where
  "or_else a b = (case a of None \<Rightarrow> b | Some s \<Rightarrow> if s = [] then b else s)"

definition auth_error_message :: "EnvConfig \<Rightarrow> post_outcome \<Rightarrow> string" where
  "auth_error_message env out =
     (case out of
        AxiosRejected resp msg \<Rightarrow>
          (let st = map_option status resp;
               message = or_else (case resp of None \<Rightarrow> None | Some r \<Rightarrow> error_description r) msg
           in if st = Some 401 then
                ''Authentication failed for '' @ name env @ '': Invalid client credentials''
              else if st = Some 403 then
                ''Access denied for '' @ name env @ '': Insufficient permissions''
              else ''Failed to authenticate with '' @ name env @ '': '' @ message)
      | _ \<Rightarrow> ''Network error while authenticating with '' @ name env)"

text \<open>
  \<open>getAccessToken post now now' env cache\<close>: \<open>post\<close> is the network as
  \<open>axios.post\<close> sees it, \<open>now\<close> the reading of \<^verbatim>\<open>Date.now()\<close> at the freshness
  check and \<open>now'\<close> its reading after the response has arrived. The result is the
  returned token (\<open>Inr\<close>) or the message of the thrown \<open>Error\<close> (\<open>Inl\<close>), the
  module's cache afterwards, and the token requests that were sent.
\<close>

definition getAccessToken ::
  "(TokenRequest \<Rightarrow> post_outcome) \<Rightarrow> int \<Rightarrow> int \<Rightarrow> EnvConfig \<Rightarrow> token_cache
     \<Rightarrow> (string + string) \<times> token_cache \<times> TokenRequest list" where
  "getAccessToken post now now' env cache =
     (let key = cacheKey env;
          exchange =
            (let request = tokenRequest env
             in case post request of
                  Fulfilled r \<Rightarrow>
                    (Inr (access_token r),
                     cache(key \<mapsto> \<lparr> token = access_token r,
                                     expiresAt = now' + expires_in r * 1000 \<rparr>),
                     [request])
                | out \<Rightarrow> (Inl (auth_error_message env out), cache, [request]))
      in case cache key of
           Some cached \<Rightarrow>
             if expiresAt cached > now + 30000 then (Inr (token cached), cache, [])
             else exchange
         | None \<Rightarrow> exchange)"

section \<open>The resilient HTTP client (api.ts)\<close>

text \<open>
  A form payload is typed \<^verbatim>\<open>any\<close> in the source. The operations read its \<open>name\<close>
  only; the other properties are kept as a list of key and value.
\<close>

record FormData =
  fd_name :: "string option"
  fd_fields :: "(string \<times> string) list"

text \<open>
  The request configuration that axios hands to its adapter and attaches to an
  \<open>AxiosError\<close>. \<open>retryCount\<close> is the property \<^verbatim>\<open>_retryCount\<close> that the interceptor
  adds: absent until the interceptor has seen the request, a natural number afterwards.
\<close>

record RequestConfig =
  baseURL :: string
  http_method :: string
  url :: string
  data :: "FormData option"
  headers :: "(string \<times> string) list"
  timeout :: nat
  retryCount :: "nat option"

record AxiosError =
  config :: "RequestConfig option"
  response :: "ErrorResponse option"
  message :: string

text \<open>
  What a \<^verbatim>\<open>catch\<close> block can receive: an \<open>AxiosError\<close>, or a value for which
  \<^verbatim>\<open>error instanceof AxiosError\<close> is false (the \<open>Error\<close> of \<open>getAccessToken\<close>, a
  \<open>TypeError\<close>), given by its message.
\<close>

datatype thrown = ThrownAxios AxiosError | ThrownError string

text \<open>
  The error handler of the response interceptor either rejects with the error or waits
  and resubmits: \<open>Resubmit delay cfg\<close> stands for
  \<^verbatim>\<open>await new Promise(r => setTimeout(r, delay)); return client(config)\<close>.
\<close>

datatype interceptor_result = Reject AxiosError | Resubmit nat RequestConfig

definition MAX_RETRIES :: nat where
  "MAX_RETRIES = 3"

definition BASE_DELAY :: nat where
  "BASE_DELAY = 1000"

definition retries :: "RequestConfig \<Rightarrow> nat" where
  "retries cfg = (case retryCount cfg of None \<Rightarrow> 0 | Some n \<Rightarrow> n)"

definition retryable :: "AxiosError \<Rightarrow> bool" where
  "retryable error =
     (case response error of
        None \<Rightarrow> False
      | Some r \<Rightarrow> status r = 429 \<or> (status r \<noteq> 0 \<and> status r \<ge> 500))"

definition retry_interceptor :: "AxiosError \<Rightarrow> interceptor_result" where
  "retry_interceptor error =
     (case config error of
        None \<Rightarrow> Reject error
      | Some cfg \<Rightarrow>
          (let cfg0 = cfg \<lparr> retryCount := Some (retries cfg) \<rparr>;
               shouldRetry = (retryable error \<and> retries cfg0 < MAX_RETRIES)
           in if shouldRetry then
                (let cfg1 = cfg0 \<lparr> retryCount := Some (retries cfg0 + 1) \<rparr>;
                     delay = BASE_DELAY * 2 ^ (retries cfg1 - 1)
                 in Resubmit delay cfg1)
              else Reject (error \<lparr> config := Some cfg0 \<rparr>)))"

lemma retry_interceptor_Resubmit:
  "retry_interceptor (e \<lparr> config := Some cfg \<rparr>) = Resubmit d cfg' \<Longrightarrow>
     retries cfg < MAX_RETRIES \<and> retries cfg' = Suc (retries cfg)"
  by (auto simp: retry_interceptor_def Let_def retries_def split: if_splits)

text \<open>
  \<open>client adapter cfg s\<close> is one call \<^verbatim>\<open>client(config)\<close>. The adapter stands for the
  network below axios: from its state \<open>s\<close> it answers a request with the response data
  (\<open>Inr\<close>, a 2xx answer) or with a failure, and moves to a new state. A failure that is
  an \<open>AxiosError\<close> carries the configuration of the request it answers, so the interceptor
  sees it with \<open>config\<close> set to \<open>cfg\<close>; any other failure has no \<open>config\<close> and the
  interceptor's first guard rejects it as it is. The result lists the delays waited, in
  order. The recursion ends because each resubmission raises the counter, which stays
  below \<open>MAX_RETRIES\<close>.
\<close>

function client ::
  "('s \<Rightarrow> RequestConfig \<Rightarrow> (thrown + 'd) \<times> 's) \<Rightarrow> RequestConfig \<Rightarrow> 's
     \<Rightarrow> (thrown + 'd) \<times> 's \<times> nat list" where
  "client adapter cfg s =
     (case adapter s cfg of
        (Inr d, s') \<Rightarrow> (Inr d, s', [])
      | (Inl (ThrownError m), s') \<Rightarrow> (Inl (ThrownError m), s', [])
      | (Inl (ThrownAxios e), s') \<Rightarrow>
          (case retry_interceptor (e \<lparr> config := Some cfg \<rparr>) of
             Reject e' \<Rightarrow> (Inl (ThrownAxios e'), s', [])
           | Resubmit delay cfg' \<Rightarrow>
               (case client adapter cfg' s' of
                  (res, s'', delays) \<Rightarrow> (res, s'', delay # delays))))"
  by pat_completeness auto
termination
  by (relation "measure (\<lambda>(adapter, cfg, s). MAX_RETRIES - retries cfg)")
     (auto dest!: retry_interceptor_Resubmit)

declare client.simps [simp del]

text \<open>
  \<open>createApiClient\<close> builds the base URL, obtains the token and fixes both in the
  client's defaults; a failure of \<open>getAccessToken\<close> propagates. \<open>client.get(url)\<close> and
  \<open>client.post(url, data)\<close> send a request configuration made from these defaults.
\<close>

record ApiClient =
  client_baseURL :: string
  client_headers :: "(string \<times> string) list"
  client_timeout :: nat

definition createApiClient ::
  "(TokenRequest \<Rightarrow> post_outcome) \<Rightarrow> int \<Rightarrow> int \<Rightarrow> EnvConfig \<Rightarrow> token_cache
     \<Rightarrow> (string + ApiClient) \<times> token_cache \<times> TokenRequest list" where
  "createApiClient post now now' env cache =
     (let base = buildApiUrl (tld env)
      in case getAccessToken post now now' env cache of
           (Inl msg, cache', reqs) \<Rightarrow> (Inl msg, cache', reqs)
         | (Inr tok, cache', reqs) \<Rightarrow>
             (Inr \<lparr> client_baseURL = base,
                    client_headers = [(''Authorization'', ''Bearer '' @ tok),
                                      (''Content-Type'', ''application/json'')],
                    client_timeout = 30000 \<rparr>,
              cache', reqs))"

definition request_config :: "ApiClient \<Rightarrow> string \<Rightarrow> string \<Rightarrow> FormData option \<Rightarrow> RequestConfig" where
  "request_config cl m u d =
     \<lparr> baseURL = client_baseURL cl, http_method = m, url = u, data = d,
       headers = client_headers cl, timeout = client_timeout cl, retryCount = None \<rparr>"

definition client_get ::
  "('s \<Rightarrow> RequestConfig \<Rightarrow> (thrown + 'd) \<times> 's) \<Rightarrow> ApiClient \<Rightarrow> string \<Rightarrow> 's
     \<Rightarrow> (thrown + 'd) \<times> 's \<times> nat list" where
  "client_get adapter cl u s = client adapter (request_config cl ''get'' u None) s"

definition client_post ::
  "('s \<Rightarrow> RequestConfig \<Rightarrow> (thrown + 'd) \<times> 's) \<Rightarrow> ApiClient \<Rightarrow> string \<Rightarrow> FormData \<Rightarrow> 's
     \<Rightarrow> (thrown + 'd) \<times> 's \<times> nat list" where
  "client_post adapter cl u d s = client adapter (request_config cl ''post'' u (Some d)) s"

section \<open>Resource operations (api.ts)\<close>

text \<open>
  Each operation runs \<open>createApiClient\<close> and its requests inside one \<^verbatim>\<open>try\<close> block;
  the \<open>_catch\<close> functions are the \<^verbatim>\<open>catch\<close> blocks, from the thrown value to the
  message of the \<open>Error\<close> that is thrown instead. An operation returns that message
  (\<open>Inl\<close>) or its result (\<open>Inr\<close>), with the token cache and the adapter's state
  afterwards. Console output (\<open>verbose\<close>) is not modelled.
\<close>

record FormSummary =
  form_id :: string
  form_name :: string
  description :: "string option"

record RemoteForm =
  rf_id :: string
  rf_name :: string
  rf_description :: "string option"
  rf_other :: "(string \<times> string) list"

record Page =
  embedded_forms :: "RemoteForm list option"   \<comment> \<open>\<^verbatim>\<open>data._embedded?.forms\<close>\<close>
  next_href :: "string option"                 \<comment> \<open>\<^verbatim>\<open>data._links?.next?.href\<close>\<close>

definition summary :: "RemoteForm \<Rightarrow> FormSummary" where
  "summary form = \<lparr> form_id = rf_id form, form_name = rf_name form,
                     description = rf_description form \<rparr>"

definition dq :: string where
  "dq = [CHR 0x22]"

definition api_message :: "AxiosError \<Rightarrow> string" where
  "api_message error =
     or_else (case response error of None \<Rightarrow> None | Some r \<Rightarrow> data_message r) (message error)"

definition listForms_catch :: "EnvConfig \<Rightarrow> thrown \<Rightarrow> string" where
  "listForms_catch env t =
     (case t of
        ThrownAxios error \<Rightarrow>
          (let st = map_option status (response error)
           in if st = Some 401 then
                ''Authentication failed for '' @ name env @ '': Token may have expired''
              else if st = Some 403 then
                ''Access denied for '' @ name env @ '': Insufficient permissions to list forms''
              else if st = Some 404 then
                ''Forms endpoint not found for '' @ name env
              else ''API error for '' @ name env @ '': '' @ api_message error)
      | ThrownError _ \<Rightarrow> ''Network error while fetching forms from '' @ name env)"

definition downloadForm_catch :: "EnvConfig \<Rightarrow> string \<Rightarrow> thrown \<Rightarrow> string" where
  "downloadForm_catch env formId t =
     (case t of
        ThrownAxios error \<Rightarrow>
          (let st = map_option status (response error)
           in if st = Some 401 then
                ''Authentication failed for '' @ name env @ '': Token may have expired''
              else if st = Some 403 then
                ''Access denied for '' @ name env @ '': Insufficient permissions to download form ''
                  @ formId
              else if st = Some 404 then
                ''Form '' @ formId @ '' not found in '' @ name env
              else ''API error downloading form '' @ formId @ '' from '' @ name env @ '': ''
                     @ api_message error)
      | ThrownError _ \<Rightarrow>
          ''Network error while downloading form '' @ formId @ '' from '' @ name env)"

definition shown_name :: "FormData \<Rightarrow> string" where
  "shown_name formData = (case fd_name formData of None \<Rightarrow> ''undefined'' | Some n \<Rightarrow> n)"

definition uploadForm_catch :: "EnvConfig \<Rightarrow> FormData \<Rightarrow> thrown \<Rightarrow> string" where
  "uploadForm_catch env formData t =
     (case t of
        ThrownAxios error \<Rightarrow>
          (let st = map_option status (response error)
           in if st = Some 401 then
                ''Authentication failed for '' @ name env @ '': Token may have expired''
              else if st = Some 403 then
                ''Access denied for '' @ name env @ '': Insufficient permissions to upload forms''
              else if st = Some 400 then
                ''Invalid form data for '' @ dq @ shown_name formData @ dq @ '': ''
                  @ api_message error
              else if st = Some 409 then
                ''Form '' @ dq @ shown_name formData @ dq @ '' already exists in '' @ name env
                  @ '' or there's a conflict''
              else ''API error uploading form '' @ dq @ shown_name formData @ dq @ '' to ''
                     @ name env @ '': '' @ api_message error)
      | ThrownError _ \<Rightarrow>
          ''Network error while uploading form '' @ dq @ shown_name formData @ dq @ '' to ''
            @ name env)"

definition downloadForm ::
  "(TokenRequest \<Rightarrow> post_outcome) \<Rightarrow> int \<Rightarrow> int
     \<Rightarrow> ('s \<Rightarrow> RequestConfig \<Rightarrow> (thrown + 'd) \<times> 's)
     \<Rightarrow> EnvConfig \<Rightarrow> string \<Rightarrow> token_cache \<Rightarrow> 's
     \<Rightarrow> (string + 'd) \<times> token_cache \<times> 's" where
  "downloadForm post now now' adapter env formId cache s =
     (case createApiClient post now now' env cache of
        (Inl msg, cache', reqs) \<Rightarrow>
          (Inl (downloadForm_catch env formId (ThrownError msg)), cache', s)
      | (Inr cl, cache', reqs) \<Rightarrow>
          (case client_get adapter cl (''/environments/'' @ envId env @ ''/forms/'' @ formId) s of
             (Inl t, s', delays) \<Rightarrow> (Inl (downloadForm_catch env formId t), cache', s')
           | (Inr d, s', delays) \<Rightarrow> (Inr d, cache', s')))"

definition uploadForm ::
  "(TokenRequest \<Rightarrow> post_outcome) \<Rightarrow> int \<Rightarrow> int
     \<Rightarrow> ('s \<Rightarrow> RequestConfig \<Rightarrow> (thrown + 'd) \<times> 's)
     \<Rightarrow> EnvConfig \<Rightarrow> FormData \<Rightarrow> token_cache \<Rightarrow> 's
     \<Rightarrow> (string + 'd) \<times> token_cache \<times> 's" where
  "uploadForm post now now' adapter env formData cache s =
     (case createApiClient post now now' env cache of
        (Inl msg, cache', reqs) \<Rightarrow>
          (Inl (uploadForm_catch env formData (ThrownError msg)), cache', s)
      | (Inr cl, cache', reqs) \<Rightarrow>
          (case client_post adapter cl (''/environments/'' @ envId env @ ''/forms'') formData s of
             (Inl t, s', delays) \<Rightarrow> (Inl (uploadForm_catch env formData t), cache', s')
           | (Inr d, s', delays) \<Rightarrow> (Inr d, cache', s')))"

text \<open>
  \<^verbatim>\<open>forms.sort((a, b) => a.name.localeCompare(b.name))\<close>: \<open>localeCompare\<close> is a
  parameter, and the sort is the stable one (an element is placed before the first one
  that it does not follow), which is what \<^verbatim>\<open>Array.prototype.sort\<close> returns when the
  comparison is consistent.
\<close>

fun insort_forms :: "(string \<Rightarrow> string \<Rightarrow> int) \<Rightarrow> FormSummary \<Rightarrow> FormSummary list \<Rightarrow> FormSummary list" where
  "insort_forms localeCompare a [] = [a]"
| "insort_forms localeCompare a (b # bs) =
     (if localeCompare (form_name a) (form_name b) \<le> 0 then a # b # bs
      else b # insort_forms localeCompare a bs)"

definition sort_forms :: "(string \<Rightarrow> string \<Rightarrow> int) \<Rightarrow> FormSummary list \<Rightarrow> FormSummary list" where
  "sort_forms localeCompare forms = foldr (insort_forms localeCompare) forms []"

definition startsWith :: "string \<Rightarrow> string \<Rightarrow> bool" where
  "startsWith s p = (take (length p) s = p)"

text \<open>
  The pagination loop \<^verbatim>\<open>while (url) { ... }\<close>. The empty string stands for a falsy
  \<open>url\<close> (\<^verbatim>\<open>null\<close> or \<^verbatim>\<open>''\<close>). \<open>parseURL href\<close> stands for \<^verbatim>\<open>new URL(href)\<close>:
  the pair of \<open>pathname\<close> and \<open>search\<close>, or \<open>None\<close> when the constructor throws. The
  loop need not end (a server can link its pages in a circle), so not returning is the
  value \<open>None\<close>.
\<close>

partial_function (option) listForms_loop ::
  "(string \<Rightarrow> (string \<times> string) option)
     \<Rightarrow> ('s \<Rightarrow> RequestConfig \<Rightarrow> (thrown + Page) \<times> 's) \<Rightarrow> ApiClient
     \<Rightarrow> string \<Rightarrow> FormSummary list \<Rightarrow> 's
     \<Rightarrow> ((thrown + FormSummary list) \<times> 's) option" where
  "listForms_loop parseURL adapter cl u forms s =
     (if u = [] then Some (Inr forms, s)
      else
        (case client_get adapter cl u s of
           (Inl t, s', delays) \<Rightarrow> Some (Inl t, s')
         | (Inr page, s', delays) \<Rightarrow>
             (let forms' = (case embedded_forms page of
                              None \<Rightarrow> forms
                            | Some pageForms \<Rightarrow> forms @ map summary pageForms);
                  href = or_else (next_href page) []
              in if href \<noteq> [] \<and> startsWith href ''http'' then
                   (case parseURL href of
                      None \<Rightarrow> Some (Inl (ThrownError ''Invalid URL''), s')
                    | Some (pathname, search) \<Rightarrow>
                        listForms_loop parseURL adapter cl (pathname @ search) forms' s')
                 else listForms_loop parseURL adapter cl href forms' s')))"

definition listForms ::
  "(TokenRequest \<Rightarrow> post_outcome) \<Rightarrow> int \<Rightarrow> int
     \<Rightarrow> (string \<Rightarrow> (string \<times> string) option) \<Rightarrow> (string \<Rightarrow> string \<Rightarrow> int)
     \<Rightarrow> ('s \<Rightarrow> RequestConfig \<Rightarrow> (thrown + Page) \<times> 's)
     \<Rightarrow> EnvConfig \<Rightarrow> token_cache \<Rightarrow> 's
     \<Rightarrow> ((string + FormSummary list) \<times> token_cache \<times> 's) option" where
  "listForms post now now' parseURL localeCompare adapter env cache s =
     (case createApiClient post now now' env cache of
        (Inl msg, cache', reqs) \<Rightarrow> Some (Inl (listForms_catch env (ThrownError msg)), cache', s)
      | (Inr cl, cache', reqs) \<Rightarrow>
          (case listForms_loop parseURL adapter cl (''/environments/'' @ envId env @ ''/forms'') [] s of
             None \<Rightarrow> None
           | Some (Inl t, s') \<Rightarrow> Some (Inl (listForms_catch env t), cache', s')
           | Some (Inr forms, s') \<Rightarrow> Some (Inr (sort_forms localeCompare forms), cache', s')))"

text \<open>
  A comparison is \<open>consistent\<close> when it is total and transitive; \<open>by_name\<close> is the
  order it gives on form summaries.
\<close>

definition consistent :: "(string \<Rightarrow> string \<Rightarrow> int) \<Rightarrow> bool" where
  "consistent cmp =
     ((\<forall>a b. cmp a b \<le> 0 \<or> cmp b a \<le> 0) \<and>
      (\<forall>a b c. cmp a b \<le> 0 \<and> cmp b c \<le> 0 \<longrightarrow> cmp a c \<le> 0))"

definition by_name :: "(string \<Rightarrow> string \<Rightarrow> int) \<Rightarrow> FormSummary \<Rightarrow> FormSummary \<Rightarrow> bool" where
  "by_name cmp a b = (cmp (form_name a) (form_name b) \<le> 0)"

section \<open>Export and import batches (forms.ts)\<close>

text \<open>
  The batch functions call \<open>downloadForm\<close>, \<open>saveFormToFile\<close>, \<open>loadFormFromFile\<close>,
  \<open>promptForMultipleFormNames\<close> and \<open>uploadForm\<close>, which act on the network, the file
  system and the terminal. Here these are parameters that pass a world \<open>'w\<close> along and
  return the message of the thrown \<open>Error\<close> (\<open>Inl\<close>) or their result (\<open>Inr\<close>). Each
  batch function also returns what it attempted: the ids passed to \<open>downloadForm\<close>, the
  payloads passed to \<open>uploadForm\<close>.
\<close>

record LocalFormFile =
  filename :: string
  lf_name :: string
  isValid :: bool
  lf_error :: "string option"

record UploadFailure =
  failed_filename :: string
  failed_error :: string

definition transformFormForExport :: "FormData \<Rightarrow> FormData" where
  "transformFormForExport formData =
     formData \<lparr> fd_fields :=
       filter (\<lambda>(k, v). k \<notin> set [''_links'', ''id'', ''environment'', ''created'', ''modified''])
         (fd_fields formData) \<rparr>"

text \<open>
  The file name of an exported form:
  \<^verbatim>\<open>name.replace(/[^a-zA-Z0-9\s-_]/g, '').replace(/\s+/g, '-').toLowerCase()\<close>, on ASCII
  names.
\<close>

definition is_alnum :: "char \<Rightarrow> bool" where
  "is_alnum c =
     (c \<in> set ''abcdefghijklmnopqrstuvwxyzABCDEFGHIJKLMNOPQRSTUVWXYZ0123456789'')"

definition is_space :: "char \<Rightarrow> bool" where
  "is_space c = (c \<in> set [CHR '' '', CHR 0x09, CHR 0x0A, CHR 0x0B, CHR 0x0C, CHR 0x0D])"

fun hyphenate_spaces :: "bool \<Rightarrow> string \<Rightarrow> string" where
  "hyphenate_spaces in_run [] = []"
| "hyphenate_spaces in_run (c # cs) =
     (if is_space c then
        (if in_run then hyphenate_spaces True cs else CHR ''-'' # hyphenate_spaces True cs)
      else c # hyphenate_spaces False cs)"

definition toLowerCase :: "string \<Rightarrow> string" where
  "toLowerCase s =
     map (\<lambda>c. if 65 \<le> (of_char c :: nat) \<and> (of_char c :: nat) \<le> 90
              then char_of (of_char c + 32 :: nat) else c) s"

definition sanitizedName :: "string \<Rightarrow> string" where
  "sanitizedName n =
     toLowerCase (hyphenate_spaces False
       (filter (\<lambda>c. is_alnum c \<or> is_space c \<or> c = CHR ''-'' \<or> c = CHR ''_'') n))"

definition download_failure :: "FormSummary \<Rightarrow> string \<Rightarrow> string" where
  "download_failure form msg =
     ''Failed to download form '' @ dq @ form_name form @ dq @ '' ('' @ form_id form @ ''): '' @ msg"

fun downloadForms ::
  "('w \<Rightarrow> string \<Rightarrow> (string + FormData) \<times> 'w)
     \<Rightarrow> ('w \<Rightarrow> FormData \<Rightarrow> string \<Rightarrow> (string + string) \<times> 'w)
     \<Rightarrow> FormSummary list \<Rightarrow> string list \<Rightarrow> 'w
     \<Rightarrow> (string + string list) \<times> 'w \<times> string list" where
  "downloadForms download save [] downloadedFiles w = (Inr downloadedFiles, w, [])"
| "downloadForms download save (form # rest) downloadedFiles w =
     (case download w (form_id form) of
        (Inl msg, w1) \<Rightarrow> (Inl (download_failure form msg), w1, [form_id form])
      | (Inr rawFormData, w1) \<Rightarrow>
          (case save w1 (transformFormForExport rawFormData)
                  (sanitizedName (form_name form) @ ''.json'') of
             (Inl msg, w2) \<Rightarrow> (Inl (download_failure form msg), w2, [form_id form])
           | (Inr filePath, w2) \<Rightarrow>
               (case downloadForms download save rest
                       (if filePath \<noteq> [] then downloadedFiles @ [filePath] else downloadedFiles) w2 of
                  (res, w3, attempted) \<Rightarrow> (res, w3, form_id form # attempted))))"

fun load_forms ::
  "('w \<Rightarrow> string \<Rightarrow> (string + FormData) \<times> 'w) \<Rightarrow> LocalFormFile list \<Rightarrow> 'w
     \<Rightarrow> (LocalFormFile \<times> FormData) list \<times> UploadFailure list \<times> 'w" where
  "load_forms load [] w = ([], [], w)"
| "load_forms load (localForm # rest) w =
     (case load w (filename localForm) of
        (Inr formData, w1) \<Rightarrow>
          (case load_forms load rest w1 of
             (formsWithData, failed, w2) \<Rightarrow> ((localForm, formData) # formsWithData, failed, w2))
      | (Inl errorMessage, w1) \<Rightarrow>
          (case load_forms load rest w1 of
             (formsWithData, failed, w2) \<Rightarrow>
               (formsWithData,
                \<lparr> failed_filename = filename localForm,
                  failed_error = ''Failed to load file: '' @ errorMessage \<rparr> # failed, w2)))"

fun upload_loop ::
  "('w \<Rightarrow> FormData \<Rightarrow> (string + 'r) \<times> 'w) \<Rightarrow> (string \<rightharpoonup> string)
     \<Rightarrow> (LocalFormFile \<times> FormData) list \<Rightarrow> 'w
     \<Rightarrow> string list \<times> UploadFailure list \<times> 'w \<times> FormData list" where
  "upload_loop upload nameMap [] w = ([], [], w, [])"
| "upload_loop upload nameMap ((localForm, formData) # rest) w =
     (let formName = or_else (nameMap (filename localForm))
                       (or_else (fd_name formData) (lf_name localForm));
          updatedFormData = formData \<lparr> fd_name := Some formName \<rparr>
      in case upload w updatedFormData of
           (Inr r, w1) \<Rightarrow>
             (case upload_loop upload nameMap rest w1 of
                (successful, failed, w2, attempted) \<Rightarrow>
                  (filename localForm # successful, failed, w2, updatedFormData # attempted))
         | (Inl errorMessage, w1) \<Rightarrow>
             (case upload_loop upload nameMap rest w1 of
                (successful, failed, w2, attempted) \<Rightarrow>
                  (successful,
                   \<lparr> failed_filename = filename localForm, failed_error = errorMessage \<rparr> # failed,
                   w2, updatedFormData # attempted)))"

definition uploadForms ::
  "('w \<Rightarrow> string \<Rightarrow> (string + FormData) \<times> 'w)
     \<Rightarrow> ('w \<Rightarrow> (LocalFormFile \<times> FormData) list \<Rightarrow> (string + (string \<rightharpoonup> string)) \<times> 'w)
     \<Rightarrow> ('w \<Rightarrow> FormData \<Rightarrow> (string + 'r) \<times> 'w)
     \<Rightarrow> LocalFormFile list \<Rightarrow> 'w
     \<Rightarrow> (string + string list \<times> UploadFailure list) \<times> 'w \<times> FormData list" where
  "uploadForms load promptForMultipleFormNames upload localForms w =
     (case load_forms load localForms w of
        (formsWithData, load_failed, w1) \<Rightarrow>
          if length formsWithData = 0 then (Inr ([], load_failed), w1, [])
          else
            (case promptForMultipleFormNames w1 formsWithData of
               (Inl msg, w2) \<Rightarrow> (Inl msg, w2, [])
             | (Inr nameMap, w2) \<Rightarrow>
                 (case upload_loop upload nameMap formsWithData w2 of
                    (successful, upload_failed, w3, attempted) \<Rightarrow>
                      (Inr (successful, load_failed @ upload_failed), w3, attempted))))"

text \<open>The payload that the upload loop sends for an entry of \<open>formsWithData\<close>.\<close>

definition named_form :: "(string \<rightharpoonup> string) \<Rightarrow> LocalFormFile \<times> FormData \<Rightarrow> FormData" where
  "named_form nameMap entry =
     (case entry of (localForm, formData) \<Rightarrow>
        formData \<lparr> fd_name := Some (or_else (nameMap (filename localForm))
                                    (or_else (fd_name formData) (lf_name localForm))) \<rparr>)"

text \<open>
  For stating what the batches do. \<open>call_each f xs w\<close> calls \<open>f\<close> on every element of
  \<open>xs\<close>, in order, whatever the earlier calls returned, and gives the outcomes and the
  world afterwards. \<open>successes\<close> and \<open>failures\<close> pick from a list of items paired with
  their outcomes those that succeeded, with their results, and those that failed, with
  their messages. \<open>export_one\<close> is the processing of one form by \<open>downloadForms\<close>:
  download, transform, save.
\<close>

fun call_each :: "('w \<Rightarrow> 'a \<Rightarrow> 'b \<times> 'w) \<Rightarrow> 'a list \<Rightarrow> 'w \<Rightarrow> 'b list \<times> 'w" where
  "call_each f [] w = ([], w)"
| "call_each f (x # xs) w =
     (case f w x of (out, w1) \<Rightarrow>
        (case call_each f xs w1 of (outs, w2) \<Rightarrow> (out # outs, w2)))"

fun successes :: "('a \<times> (string + 'b)) list \<Rightarrow> ('a \<times> 'b) list" where
  "successes [] = []"
| "successes ((x, Inr r) # rest) = (x, r) # successes rest"
| "successes ((x, Inl msg) # rest) = successes rest"

fun failures :: "('a \<times> (string + 'b)) list \<Rightarrow> ('a \<times> string) list" where
  "failures [] = []"
| "failures ((x, Inr r) # rest) = failures rest"
| "failures ((x, Inl msg) # rest) = (x, msg) # failures rest"

definition export_one ::
  "('w \<Rightarrow> string \<Rightarrow> (string + FormData) \<times> 'w)
     \<Rightarrow> ('w \<Rightarrow> FormData \<Rightarrow> string \<Rightarrow> (string + string) \<times> 'w)
     \<Rightarrow> 'w \<Rightarrow> FormSummary \<Rightarrow> (string + string) \<times> 'w" where
  "export_one download save w form =
     (case download w (form_id form) of
        (Inl msg, w1) \<Rightarrow> (Inl msg, w1)
      | (Inr rawFormData, w1) \<Rightarrow>
          save w1 (transformFormForExport rawFormData) (sanitizedName (form_name form) @ ''.json''))"

section \<open>Example data\<close>

text \<open>
  Credentials, replies and servers for the concrete runs below. \<open>scripted\<close> is an
  adapter whose state is the list of the replies it has yet to give.
\<close>

definition env_dev :: EnvConfig where
  "env_dev = \<lparr> name = ''Dev US'', envId = ''11111111-2222-3333-4444-555555555555'',
               clientId = ''aaaaaaaa-bbbb-cccc-dddd-eeeeeeeeeeee'', clientSecret = ''s3cret'',
               tld = eu \<rparr>"

definition env_dev_alias :: EnvConfig where
  "env_dev_alias = env_dev \<lparr> name := ''Dev EU (copy)'' \<rparr>"

definition server_error :: ErrorResponse where
  "server_error = \<lparr> status = 500, error_description = None, data_message = None \<rparr>"

definition cache_dev :: token_cache where
  "cache_dev = Map.empty(cacheKey env_dev \<mapsto> \<lparr> token = ''t0'', expiresAt = 40000 \<rparr>)"

fun scripted :: "(thrown + 'd) list \<Rightarrow> RequestConfig \<Rightarrow> (thrown + 'd) \<times> (thrown + 'd) list" where
  "scripted [] cfg = (Inl (ThrownError ''no reply scripted''), [])"
| "scripted (reply # replies) cfg = (reply, replies)"

definition get_forms_config :: RequestConfig where
  "get_forms_config =
     \<lparr> baseURL = ''https://api.pingone.eu/v1'', http_method = ''get'',
       url = ''/environments/e/forms'', data = None,
       headers = [(''Authorization'', ''Bearer t1''), (''Content-Type'', ''application/json'')],
       timeout = 30000, retryCount = None \<rparr>"

definition too_many_requests :: AxiosError where
  "too_many_requests =
     \<lparr> config = None,
       response = Some \<lparr> status = 429, error_description = None, data_message = None \<rparr>,
       message = ''Request failed'' \<rparr>"

definition not_found :: AxiosError where
  "not_found =
     \<lparr> config = None,
       response = Some \<lparr> status = 404, error_description = None, data_message = None \<rparr>,
       message = ''Request failed'' \<rparr>"

definition forms_path :: string where
  "forms_path = ''/environments/11111111-2222-3333-4444-555555555555/forms''"

definition absolute_link :: string where
  "absolute_link = ''https://api.pingone.eu/v1'' @ forms_path @ ''?cursor=p2''"

definition relative_link_p2 :: string where
  "relative_link_p2 = forms_path @ ''?cursor=p2''"

definition relative_link :: string where
  "relative_link = forms_path @ ''?cursor=p3''"

definition remote_form :: "string \<Rightarrow> string \<Rightarrow> RemoteForm" where
  "remote_form i n =
     \<lparr> rf_id = i, rf_name = n, rf_description = None, rf_other = [(''environment'', ''e'')] \<rparr>"

definition page1 :: Page where
  "page1 = \<lparr> embedded_forms = Some [remote_form ''f-1'' ''registration'', remote_form ''f-2'' ''login''],
             next_href = Some absolute_link \<rparr>"

definition page2 :: Page where
  "page2 = \<lparr> embedded_forms = Some [remote_form ''f-3'' ''consent'', remote_form ''f-4'' ''profile''],
             next_href = Some relative_link \<rparr>"

definition page3 :: Page where
  "page3 = \<lparr> embedded_forms = Some [remote_form ''f-5'' ''address''], next_href = None \<rparr>"

text \<open>
  What \<^verbatim>\<open>new URL(href)\<close> yields for the absolute link of the example: its
  \<open>pathname\<close> and its \<open>search\<close>.
\<close>

definition link_pathname :: string where
  "link_pathname = ''/v1'' @ forms_path"

definition link_search :: string where
  "link_search = ''?cursor=p2''"

definition example_URL :: "string \<Rightarrow> (string \<times> string) option" where
  "example_URL href = (if href = absolute_link then Some (link_pathname, link_search) else None)"

fun code_unit_compare :: "string \<Rightarrow> string \<Rightarrow> int" where
  "code_unit_compare [] [] = 0"
| "code_unit_compare [] (y # ys) = - 1"
| "code_unit_compare (x # xs) [] = 1"
| "code_unit_compare (x # xs) (y # ys) =
     (if (of_char x :: nat) < of_char y then - 1
      else if (of_char y :: nat) < of_char x then 1
      else code_unit_compare xs ys)"

definition form_summary :: "string \<Rightarrow> string \<Rightarrow> FormSummary" where
  "form_summary i n = \<lparr> form_id = i, form_name = n, description = None \<rparr>"

definition api_client_t1 :: ApiClient where
  "api_client_t1 =
     \<lparr> client_baseURL = ''https://api.pingone.eu/v1'',
       client_headers = [(''Authorization'', ''Bearer t1''), (''Content-Type'', ''application/json'')],
       client_timeout = 30000 \<rparr>"

definition token_t1 :: "TokenRequest \<Rightarrow> post_outcome" where
  "token_t1 request = Fulfilled \<lparr> access_token = ''t1'', expires_in = 3600 \<rparr>"

definition bad_request :: AxiosError where
  "bad_request =
     \<lparr> config = None,
       response = Some \<lparr> status = 400, error_description = None,
                         data_message = Some ''components must not be empty'' \<rparr>,
       message = ''Request failed with status code 400'' \<rparr>"

definition login_form :: FormData where
  "login_form = \<lparr> fd_name = Some ''login'', fd_fields = [(''category'', ''CUSTOM'')] \<rparr>"

definition first_download_fails :: "nat \<Rightarrow> string \<Rightarrow> (string + FormData) \<times> nat" where
  "first_download_fails n formId =
     (if n = 0 then Inl (''Form '' @ formId @ '' not found in Dev US'') else Inr login_form, Suc n)"

definition save_to_forms_dir :: "nat \<Rightarrow> FormData \<Rightarrow> string \<Rightarrow> (string + string) \<times> nat" where
  "save_to_forms_dir n formData file = (Inr (''forms/'' @ file), n)"

definition local_file :: "string \<Rightarrow> LocalFormFile" where
  "local_file n = \<lparr> filename = n @ ''.json'', lf_name = n, isValid = True, lf_error = None \<rparr>"

text \<open>
  The address a request reaches. axios appends a relative \<open>url\<close> to the client's
  \<open>baseURL\<close>: the collection request \<^verbatim>\<open>/environments/<id>/forms\<close> of \<open>listForms\<close>
  relies on it to reach \<^verbatim>\<open>https://api.pingone.<tld>/v1/environments/<id>/forms\<close>.
\<close>

definition request_address :: "RequestConfig \<Rightarrow> string" where
  "request_address cfg = baseURL cfg @ url cfg"

definition page1_relative :: Page where
  "page1_relative = page1 \<lparr> next_href := Some relative_link_p2 \<rparr>"

text \<open>
  A server that holds the three pages at the addresses its links advertise: the
  collection at its own address, page 2 at \<open>absolute_link\<close> and page 3 at the address
  of \<open>relative_link\<close>; any other address is answered with status 404. Its state counts
  the requests received. \<open>first_page\<close> is the page it gives for the collection, so
  that the link to page 2 can be given absolute or relative.
\<close>

definition listing_server :: "Page \<Rightarrow> nat \<Rightarrow> RequestConfig \<Rightarrow> (thrown + Page) \<times> nat" where
  "listing_server first_page n cfg =
     ((if request_address cfg = ''https://api.pingone.eu/v1'' @ forms_path then Inr first_page
       else if request_address cfg = absolute_link then Inr page2
       else if request_address cfg = ''https://api.pingone.eu/v1'' @ relative_link then Inr page3
       else Inl (ThrownAxios not_found)),
      Suc n)"

definition logged_load :: "string list \<Rightarrow> string \<Rightarrow> (string + FormData) \<times> string list" where
  "logged_load log file =
     (if file = ''b.json'' then Inl ''Unexpected end of JSON input'' else Inr login_form,
      log @ [''load '' @ file])"

definition logged_names ::
  "string list \<Rightarrow> (LocalFormFile \<times> FormData) list
     \<Rightarrow> (string + (string \<rightharpoonup> string)) \<times> string list" where
  "logged_names log formsWithData =
     (Inr (map_of (map (\<lambda>(localForm, formData). (filename localForm, lf_name localForm))
                     formsWithData)),
      log @ [''prompt''])"

definition logged_upload :: "string list \<Rightarrow> FormData \<Rightarrow> (string + FormData) \<times> string list" where
  "logged_upload log formData =
     (if fd_name formData = Some ''c''
      then Inl ''Access denied for Dev US: Insufficient permissions to upload forms''
      else Inr formData,
      log @ [''upload '' @ shown_name formData])"

definition logged_download :: "string list \<Rightarrow> string \<Rightarrow> (string + FormData) \<times> string list" where
  "logged_download log formId =
     (if formId = ''f-2'' then Inl ''Form f-2 not found in Dev US'' else Inr login_form,
      log @ [''download '' @ formId])"

definition logged_save :: "string list \<Rightarrow> FormData \<Rightarrow> string \<Rightarrow> (string + string) \<times> string list" where
  "logged_save log formData file = (Inr (''forms/'' @ file), log @ [''save '' @ file])"

section \<open>Properties of the token manager\<close>

lemma getAccessToken_hit:
  "cache (cacheKey env) = Some c \<Longrightarrow> expiresAt c > now + 30000 \<Longrightarrow>
     getAccessToken post now now' env cache = (Inr (token c), cache, [])"
  by (simp add: getAccessToken_def)

lemma getAccessToken_miss:
  "(\<And>c. cache (cacheKey env) = Some c \<Longrightarrow> \<not> expiresAt c > now + 30000) \<Longrightarrow>
     getAccessToken post now now' env cache =
       (case post (tokenRequest env) of
          Fulfilled r \<Rightarrow>
            (Inr (access_token r),
             cache(cacheKey env \<mapsto> \<lparr> token = access_token r, expiresAt = now' + expires_in r * 1000 \<rparr>),
             [tokenRequest env])
        | out \<Rightarrow> (Inl (auth_error_message env out), cache, [tokenRequest env]))"
  by (auto simp: getAccessToken_def Let_def split: option.splits)

text \<open>
  Claim C2. While a cache entry for the credential exists whose \<open>expiresAt\<close> minus
  the current time exceeds 30000 ms, \<open>getAccessToken\<close> returns the cached token, leaves
  the cache as it is and sends no request. In every other case it sends exactly one token
  request; when that request is answered with a 2xx response, the entry
  \<open>expiresAt = now' + expires_in * 1000\<close> is stored under the credential's key and
  the new token is returned (\<open>now'\<close> is the clock when the response has arrived).
\<close>

theorem getAccessToken_cached_or_single_exchange:
  "(\<forall>c. cache (cacheKey env) = Some c \<and> expiresAt c - now > 30000 \<longrightarrow>
        getAccessToken post now now' env cache = (Inr (token c), cache, []))
   \<and> ((\<nexists>c. cache (cacheKey env) = Some c \<and> expiresAt c - now > 30000) \<longrightarrow>
        snd (snd (getAccessToken post now now' env cache)) = [tokenRequest env] \<and>
        (\<forall>r. post (tokenRequest env) = Fulfilled r \<longrightarrow>
           getAccessToken post now now' env cache =
             (Inr (access_token r),
              cache(cacheKey env \<mapsto> \<lparr> token = access_token r, expiresAt = now' + expires_in r * 1000 \<rparr>),
              [tokenRequest env])))"
proof (intro conjI allI impI)
  fix c assume "cache (cacheKey env) = Some c \<and> expiresAt c - now > 30000"
  then show "getAccessToken post now now' env cache = (Inr (token c), cache, [])"
    by (simp add: getAccessToken_hit)
next
  assume miss: "\<nexists>c. cache (cacheKey env) = Some c \<and> expiresAt c - now > 30000"
  then have m: "\<And>c. cache (cacheKey env) = Some c \<Longrightarrow> \<not> expiresAt c > now + 30000"
    by auto
  show "snd (snd (getAccessToken post now now' env cache)) = [tokenRequest env]"
    by (simp add: getAccessToken_miss [OF m] split: post_outcome.splits)
  fix r assume "post (tokenRequest env) = Fulfilled r"
  then show "getAccessToken post now now' env cache =
             (Inr (access_token r),
              cache(cacheKey env \<mapsto> \<lparr> token = access_token r, expiresAt = now' + expires_in r * 1000 \<rparr>),
              [tokenRequest env])"
    by (simp add: getAccessToken_miss [OF m])
qed

theorem getAccessToken_cached_or_single_exchange_witness:
  "getAccessToken (\<lambda>_. OtherRejected) 9999 9999 env_dev cache_dev = (Inr ''t0'', cache_dev, [])
   \<and> getAccessToken (\<lambda>_. Fulfilled \<lparr> access_token = ''t1'', expires_in = 3600 \<rparr>)
         10000 10250 env_dev cache_dev
       = (Inr ''t1'',
          cache_dev(cacheKey env_dev \<mapsto> \<lparr> token = ''t1'', expiresAt = 3610250 \<rparr>),
          [tokenRequest env_dev])"
proof -
  have hit: "cache_dev (cacheKey env_dev) = Some \<lparr> token = ''t0'', expiresAt = 40000 \<rparr>"
    by (simp add: cache_dev_def)
  have a: "getAccessToken (\<lambda>_. OtherRejected) 9999 9999 env_dev cache_dev = (Inr ''t0'', cache_dev, [])"
    using getAccessToken_cached_or_single_exchange [of cache_dev env_dev 9999 "\<lambda>_. OtherRejected" 9999] hit by simp
  have b: "getAccessToken (\<lambda>_. Fulfilled \<lparr> access_token = ''t1'', expires_in = 3600 \<rparr>)
         10000 10250 env_dev cache_dev
       = (Inr ''t1'',
          cache_dev(cacheKey env_dev \<mapsto> \<lparr> token = ''t1'', expiresAt = 3610250 \<rparr>),
          [tokenRequest env_dev])"
    using getAccessToken_cached_or_single_exchange [of cache_dev env_dev 10000 "\<lambda>_. Fulfilled \<lparr> access_token = ''t1'', expires_in = 3600 \<rparr>" 10250] hit
    by simp
  from a b show ?thesis by simp
qed

text \<open>
  Claim C4. A token request that times out is rejected by axios with an \<open>AxiosError\<close>
  that has no \<open>response\<close>. \<open>getAccessToken\<close> then takes the \<open>AxiosError\<close> branch
  and throws the generic ``Failed to authenticate with'' message, which carries the
  environment's display name; the ``Network error while authenticating with'' message is
  not the one thrown.
\<close>

theorem getAccessToken_no_response_is_generic_failure:
  "getAccessToken (\<lambda>_. AxiosRejected None ''timeout of 10000ms exceeded'') now now' env Map.empty
     = (Inl (''Failed to authenticate with '' @ name env @ '': timeout of 10000ms exceeded''),
        Map.empty, [tokenRequest env])
   \<and> fst (getAccessToken (\<lambda>_. AxiosRejected None ''timeout of 10000ms exceeded'') now now' env Map.empty)
     \<noteq> Inl (''Network error while authenticating with '' @ name env)
   \<and> sublist (name env)
        (''Failed to authenticate with '' @ name env @ '': timeout of 10000ms exceeded'')"
proof -
  have "sublist (name env)
        (''Failed to authenticate with '' @ name env @ '': timeout of 10000ms exceeded'')"
    by (rule sublist_appendI)
  then show ?thesis
    by (simp add: getAccessToken_def auth_error_message_def or_else_def)
qed

lemma uuid_length: "uuidRegex_test s \<Longrightarrow> length s = 36"
  by (simp add: uuidRegex_test_def)

lemma cacheKey_inj:
  assumes "uuidRegex_test (envId e1)" "uuidRegex_test (envId e2)" "cacheKey e1 = cacheKey e2"
  shows "envId e1 = envId e2 \<and> clientId e1 = clientId e2"
proof -
  have "length (envId e1) = length (envId e2)"
    using assms(1,2) by (simp add: uuid_length)
  with assms(3) show ?thesis
    by (simp add: cacheKey_def)
qed

lemma getAccessToken_Inr_cached:
  assumes "getAccessToken post now now' env cache = (Inr tok, cache', reqs)"
  shows "\<exists>c. cache' (cacheKey env) = Some c \<and> token c = tok"
  using assms
  by (auto simp: getAccessToken_def Let_def split: option.splits if_splits post_outcome.splits)

text \<open>
  Claim C7. The cache key is determined by \<open>envId\<close> and \<open>clientId\<close>: two
  credentials that agree on both have the same key, whatever their other fields, and a
  token that \<open>getAccessToken\<close> has returned for one of them is returned for the other,
  with no request and no change of the cache, at every time at which the entry is still
  more than 30000 ms from expiry. For \<open>envId\<close>s that pass the configuration's UUID
  check the key also determines the pair.
\<close>

theorem token_cache_shared_by_tenant_and_client:
  "(uuidRegex_test (envId e1) \<and> uuidRegex_test (envId e2) \<longrightarrow>
      (cacheKey e1 = cacheKey e2) = (envId e1 = envId e2 \<and> clientId e1 = clientId e2))
   \<and> (envId e1 = envId e2 \<and> clientId e1 = clientId e2 \<longrightarrow>
        cacheKey e1 = cacheKey e2 \<and>
        (\<forall>post now now' cache tok cache' reqs.
           getAccessToken post now now' e1 cache = (Inr tok, cache', reqs) \<longrightarrow>
           (\<exists>c. cache' (cacheKey e2) = Some c \<and> token c = tok \<and>
                (\<forall>post2 t t'. expiresAt c - t > 30000 \<longrightarrow>
                    getAccessToken post2 t t' e2 cache' = (Inr tok, cache', [])))))"
proof (intro conjI impI allI)
  assume "uuidRegex_test (envId e1) \<and> uuidRegex_test (envId e2)"
  then show "(cacheKey e1 = cacheKey e2) = (envId e1 = envId e2 \<and> clientId e1 = clientId e2)"
    using cacheKey_inj [of e1 e2] by (auto simp: cacheKey_def)
next
  assume "envId e1 = envId e2 \<and> clientId e1 = clientId e2"
  then show "cacheKey e1 = cacheKey e2" by (simp add: cacheKey_def)
next
  fix post now now' cache tok cache' reqs
  assume same: "envId e1 = envId e2 \<and> clientId e1 = clientId e2"
    and run: "getAccessToken post now now' e1 cache = (Inr tok, cache', reqs)"
  from same have k: "cacheKey e1 = cacheKey e2" by (simp add: cacheKey_def)
  from getAccessToken_Inr_cached [OF run] k
  obtain c where c: "cache' (cacheKey e2) = Some c" "token c = tok" by auto
  have "\<forall>post2 t t'. expiresAt c - t > 30000 \<longrightarrow>
          getAccessToken post2 t t' e2 cache' = (Inr tok, cache', [])"
    using c by (simp add: getAccessToken_hit)
  with c show "\<exists>c. cache' (cacheKey e2) = Some c \<and> token c = tok \<and>
                (\<forall>post2 t t'. expiresAt c - t > 30000 \<longrightarrow>
                    getAccessToken post2 t t' e2 cache' = (Inr tok, cache', []))"
    by blast
qed

theorem token_cache_shared_by_tenant_and_client_witness:
  "name env_dev \<noteq> name env_dev_alias
   \<and> cacheKey env_dev = cacheKey env_dev_alias
   \<and> fst (getAccessToken (\<lambda>_. Fulfilled \<lparr> access_token = ''t1'', expires_in = 3600 \<rparr>)
             0 250 env_dev Map.empty) = Inr ''t1''
   \<and> getAccessToken (\<lambda>_. OtherRejected) 600000 600000 env_dev_alias
         (fst (snd (getAccessToken (\<lambda>_. Fulfilled \<lparr> access_token = ''t1'', expires_in = 3600 \<rparr>)
             0 250 env_dev Map.empty)))
       = (Inr ''t1'',
          fst (snd (getAccessToken (\<lambda>_. Fulfilled \<lparr> access_token = ''t1'', expires_in = 3600 \<rparr>)
             0 250 env_dev Map.empty)), [])"
proof -
  let ?post = "\<lambda>_::TokenRequest. Fulfilled \<lparr> access_token = ''t1'', expires_in = 3600 \<rparr>"
  let ?c1 = "Map.empty(cacheKey env_dev \<mapsto> \<lparr> token = ''t1'', expiresAt = 3600250 \<rparr>)"
  have uu: "uuidRegex_test (envId env_dev) \<and> uuidRegex_test (envId env_dev_alias)"
    by (simp add: env_dev_def env_dev_alias_def uuidRegex_test_def is_hex_def)
  have same: "envId env_dev = envId env_dev_alias \<and> clientId env_dev = clientId env_dev_alias"
    by (simp add: env_dev_alias_def)
  have run: "getAccessToken ?post 0 250 env_dev Map.empty = (Inr ''t1'', ?c1, [tokenRequest env_dev])"
    by (simp add: getAccessToken_def)
  note th = token_cache_shared_by_tenant_and_client [of env_dev env_dev_alias]
  from th uu same have k: "cacheKey env_dev = cacheKey env_dev_alias" by blast
  from th same run obtain c where c: "?c1 (cacheKey env_dev_alias) = Some c" "token c = ''t1''"
    "\<forall>post2 t t'. expiresAt c - t > 30000 \<longrightarrow>
        getAccessToken post2 t t' env_dev_alias ?c1 = (Inr ''t1'', ?c1, [])"
    by blast
  from c(1) k have "expiresAt c = 3600250" by auto
  with c(3) have "getAccessToken (\<lambda>_. OtherRejected) 600000 600000 env_dev_alias ?c1 = (Inr ''t1'', ?c1, [])"
    by simp
  with run k show ?thesis by (simp add: env_dev_def env_dev_alias_def)
qed


text \<open>
  Claim C10. When the token endpoint answers with an \<open>AxiosError\<close> (any status, or
  no response) or with any other failure, the cache after \<open>getAccessToken\<close> is the
  cache before it. Whenever \<open>getAccessToken\<close> throws, the cache is unchanged, exactly
  one request was sent, and a later call for the same credential (the clock not having
  gone back) sends the token request again.
\<close>

theorem getAccessToken_failure_keeps_cache:
  "((post (tokenRequest env) = AxiosRejected resp m \<or> post (tokenRequest env) = OtherRejected) \<longrightarrow>
       fst (snd (getAccessToken post now now' env cache)) = cache)
   \<and> (\<forall>msg cache' reqs.
        getAccessToken post now now' env cache = (Inl msg, cache', reqs) \<longrightarrow>
          cache' = cache \<and> reqs = [tokenRequest env] \<and>
          (\<forall>post2 t t'. now \<le> t \<longrightarrow>
             snd (snd (getAccessToken post2 t t' env cache')) = [tokenRequest env]))"
  by (auto simp: getAccessToken_def Let_def split: option.splits post_outcome.splits if_splits)

theorem getAccessToken_failure_keeps_cache_witness:
  "fst (getAccessToken (\<lambda>_. AxiosRejected (Some server_error) ''Request failed with status code 500'')
          10000 10250 env_dev cache_dev)
     = Inl ''Failed to authenticate with Dev US: Request failed with status code 500''
   \<and> fst (snd (getAccessToken
          (\<lambda>_. AxiosRejected (Some server_error) ''Request failed with status code 500'')
          10000 10250 env_dev cache_dev))
     = cache_dev
   \<and> snd (snd (getAccessToken (\<lambda>_. OtherRejected) 10500 10700 env_dev cache_dev))
     = [tokenRequest env_dev]"
proof -
  let ?post = "\<lambda>_::TokenRequest.
      AxiosRejected (Some server_error) ''Request failed with status code 500''"
  note th = getAccessToken_failure_keeps_cache
      [of ?post env_dev "Some server_error" "''Request failed with status code 500''"
          10000 10250 cache_dev]
  have run: "getAccessToken ?post 10000 10250 env_dev cache_dev
     = (Inl ''Failed to authenticate with Dev US: Request failed with status code 500'',
        cache_dev, [tokenRequest env_dev])"
    by (simp add: getAccessToken_def cache_dev_def auth_error_message_def or_else_def
        env_dev_def server_error_def)
  from th have kept: "fst (snd (getAccessToken ?post 10000 10250 env_dev cache_dev)) = cache_dev"
    by simp
  from th run
  have again: "snd (snd (getAccessToken (\<lambda>_. OtherRejected) 10500 10700 env_dev cache_dev))
      = [tokenRequest env_dev]"
    by simp
  from run kept again show ?thesis by simp
qed

section \<open>Properties of the retry interceptor\<close>

lemma retryable_iff:
  "retryable error = (\<exists>r. response error = Some r \<and> (status r = 429 \<or> status r \<ge> 500))"
  by (auto simp: retryable_def split: option.splits)

lemma retryable_config [simp]: "retryable (e \<lparr> config := c \<rparr>) = retryable e"
  by (simp add: retryable_def)

lemma retry_interceptor_Some:
  "config error = Some cfg \<Longrightarrow>
     retry_interceptor error =
       (if retryable error \<and> retries cfg < 3
        then Resubmit (BASE_DELAY * 2 ^ (Suc (retries cfg) - 1))
                      (cfg \<lparr> retryCount := Some (Suc (retries cfg)) \<rparr>)
        else Reject (error \<lparr> config := Some (cfg \<lparr> retryCount := Some (retries cfg) \<rparr>) \<rparr>))"
  by (simp add: retry_interceptor_def Let_def retries_def MAX_RETRIES_def)

lemma client_retry:
  assumes "adapter s cfg = (Inl (ThrownAxios e), s1)" "retryable e" "retries cfg < 3"
  shows "client adapter cfg s =
           (case client adapter (cfg \<lparr> retryCount := Some (Suc (retries cfg)) \<rparr>) s1 of
              (res, s2, delays) \<Rightarrow> (res, s2, BASE_DELAY * 2 ^ (Suc (retries cfg) - 1) # delays))"
  using assms by (subst client.simps) (simp add: retry_interceptor_Some)

lemma client_reject:
  assumes "adapter s cfg = (Inl (ThrownAxios e), s1)" "\<not> (retryable e \<and> retries cfg < 3)"
  shows "client adapter cfg s =
           (Inl (ThrownAxios (e \<lparr> config := Some (cfg \<lparr> retryCount := Some (retries cfg) \<rparr>) \<rparr>)),
            s1, [])"
  using assms by (subst client.simps) (auto simp: retry_interceptor_Some)

lemma client_not_retried:
  assumes "adapter s cfg = (Inl (ThrownAxios e), s1)" "response e = Some r"
    "status r \<noteq> 429" "status r < 500"
  shows "client adapter cfg s =
           (Inl (ThrownAxios (e \<lparr> config := Some (cfg \<lparr> retryCount := Some (retries cfg) \<rparr>) \<rparr>)),
            s1, [])"
  using assms by (intro client_reject) (auto simp: retryable_def)

text \<open>
  Claim C1. For an \<open>AxiosError\<close> that carries its request's configuration, the response
  interceptor resubmits exactly when the response status is 429 or at least 500 and the
  request's retry counter is below 3. It then resubmits the same configuration with the
  counter incremented, after a delay of \<open>BASE_DELAY * 2 ^ (retryCount - 1)\<close> ms, which
  is 1000, 2000 and 4000 ms for the counters 1, 2 and 3. In every other case it rejects
  with the error it was given, whose request configuration has its counter set (to 0 when
  it was absent), and the client returns that error with no delay and no further call of
  the adapter. An error without a request configuration is rejected as it is.
\<close>

theorem retry_interceptor_retries_while_retryable:
  "(config error = Some cfg \<longrightarrow>
      retry_interceptor error =
        (if (\<exists>r. response error = Some r \<and> (status r = 429 \<or> status r \<ge> 500)) \<and> retries cfg < 3
         then Resubmit (BASE_DELAY * 2 ^ (Suc (retries cfg) - 1))
                       (cfg \<lparr> retryCount := Some (Suc (retries cfg)) \<rparr>)
         else Reject (error \<lparr> config := Some (cfg \<lparr> retryCount := Some (retries cfg) \<rparr>) \<rparr>)))
   \<and> (adapter s cfg = (Inl (ThrownAxios e), s1) \<longrightarrow>
        client adapter cfg s =
          (if (\<exists>r. response e = Some r \<and> (status r = 429 \<or> status r \<ge> 500)) \<and> retries cfg < 3
           then (case client adapter (cfg \<lparr> retryCount := Some (Suc (retries cfg)) \<rparr>) s1 of
                   (res, s2, delays) \<Rightarrow>
                     (res, s2, BASE_DELAY * 2 ^ (Suc (retries cfg) - 1) # delays))
           else (Inl (ThrownAxios
                   (e \<lparr> config := Some (cfg \<lparr> retryCount := Some (retries cfg) \<rparr>) \<rparr>)), s1, [])))
   \<and> (config error = None \<longrightarrow> retry_interceptor error = Reject error)
   \<and> map (\<lambda>retryCount. BASE_DELAY * 2 ^ (retryCount - 1)) [1, 2, 3] = [1000, 2000, 4000]"
proof (intro conjI impI)
  assume "config error = None"
  then show "retry_interceptor error = Reject error"
    by (simp add: retry_interceptor_def)
next
  assume "config error = Some cfg"
  then show "retry_interceptor error =
        (if (\<exists>r. response error = Some r \<and> (status r = 429 \<or> status r \<ge> 500)) \<and> retries cfg < 3
         then Resubmit (BASE_DELAY * 2 ^ (Suc (retries cfg) - 1))
                       (cfg \<lparr> retryCount := Some (Suc (retries cfg)) \<rparr>)
         else Reject (error \<lparr> config := Some (cfg \<lparr> retryCount := Some (retries cfg) \<rparr>) \<rparr>))"
    by (simp only: retry_interceptor_Some retryable_iff)
next
  assume a: "adapter s cfg = (Inl (ThrownAxios e), s1)"
  show "client adapter cfg s =
          (if (\<exists>r. response e = Some r \<and> (status r = 429 \<or> status r \<ge> 500)) \<and> retries cfg < 3
           then (case client adapter (cfg \<lparr> retryCount := Some (Suc (retries cfg)) \<rparr>) s1 of
                   (res, s2, delays) \<Rightarrow>
                     (res, s2, BASE_DELAY * 2 ^ (Suc (retries cfg) - 1) # delays))
           else (Inl (ThrownAxios
                   (e \<lparr> config := Some (cfg \<lparr> retryCount := Some (retries cfg) \<rparr>) \<rparr>)), s1, []))"
  proof -
    have "client adapter cfg s =
          (if retryable e \<and> retries cfg < 3
           then (case client adapter (cfg \<lparr> retryCount := Some (Suc (retries cfg)) \<rparr>) s1 of
                   (res, s2, delays) \<Rightarrow>
                     (res, s2, BASE_DELAY * 2 ^ (Suc (retries cfg) - 1) # delays))
           else (Inl (ThrownAxios
                   (e \<lparr> config := Some (cfg \<lparr> retryCount := Some (retries cfg) \<rparr>) \<rparr>)), s1, []))"
    proof (cases "retryable e \<and> retries cfg < 3")
      case True
      then show ?thesis
        using a client_retry [of adapter s cfg e s1] by simp
    next
      case False
      then show ?thesis
        using a client_reject [of adapter s cfg e s1] by auto
    qed
    then show ?thesis
      by (simp only: retryable_iff)
  qed
next
  show "map (\<lambda>retryCount. BASE_DELAY * 2 ^ (retryCount - 1)) [1, 2, 3] = [1000, 2000, 4000]"
    by (simp add: BASE_DELAY_def)
qed

theorem retry_interceptor_retries_while_retryable_witness:
  "retry_interceptor (too_many_requests \<lparr> config := Some get_forms_config \<rparr>)
     = Resubmit 1000 (get_forms_config \<lparr> retryCount := Some 1 \<rparr>)
   \<and> client scripted get_forms_config
        [Inl (ThrownAxios too_many_requests), Inl (ThrownAxios too_many_requests),
         Inl (ThrownAxios too_many_requests), Inr ''{}'']
       = (Inr ''{}'', [], [1000, 2000, 4000])
   \<and> client scripted get_forms_config
        [Inl (ThrownAxios too_many_requests), Inl (ThrownAxios too_many_requests),
         Inl (ThrownAxios too_many_requests), Inl (ThrownAxios too_many_requests), Inr ''{}'']
       = (Inl (ThrownAxios (too_many_requests
                 \<lparr> config := Some (get_forms_config \<lparr> retryCount := Some 3 \<rparr>) \<rparr>)),
          [Inr ''{}''], [1000, 2000, 4000])
   \<and> client scripted get_forms_config [Inl (ThrownAxios not_found), Inr ''{}'']
       = (Inl (ThrownAxios (not_found
                 \<lparr> config := Some (get_forms_config \<lparr> retryCount := Some 0 \<rparr>) \<rparr>)),
          [Inr ''{}''], [])"
proof -
  let ?busy = "Inl (ThrownAxios too_many_requests) :: thrown + string"
  let ?ok = "Inr ''{}'' :: thrown + string"
  let ?cfg = "\<lambda>n. get_forms_config \<lparr> retryCount := Some n \<rparr>"
  have r0 [simp]: "retries get_forms_config = 0" and rn [simp]: "\<And>n. retries (?cfg n) = n"
    by (simp_all add: retries_def get_forms_config_def)
  have st [simp]: "response too_many_requests
      = Some \<lparr> status = 429, error_description = None, data_message = None \<rparr>"
    "response not_found = Some \<lparr> status = 404, error_description = None, data_message = None \<rparr>"
    by (simp_all add: too_many_requests_def not_found_def)
  note icpt = retry_interceptor_retries_while_retryable [THEN conjunct1, rule_format]
  note step = retry_interceptor_retries_while_retryable [THEN conjunct2, THEN conjunct1, rule_format]
  have i: "retry_interceptor (too_many_requests \<lparr> config := Some get_forms_config \<rparr>)
     = Resubmit 1000 (get_forms_config \<lparr> retryCount := Some 1 \<rparr>)"
    using icpt [of "too_many_requests \<lparr> config := Some get_forms_config \<rparr>" get_forms_config]
    by (simp add: BASE_DELAY_def)
  have ok3: "client scripted (?cfg 3) (?ok # rest) = (?ok, rest, [])" for rest
    by (subst client.simps) simp
  have a3: "client scripted (?cfg 2) (?busy # ?ok # rest) = (?ok, rest, [4000])" for rest
    using step [of scripted "?busy # ?ok # rest" "?cfg 2" too_many_requests "?ok # rest"] ok3
    by (simp add: BASE_DELAY_def)
  have a2: "client scripted (?cfg 1) (?busy # ?busy # ?ok # rest) = (?ok, rest, [2000, 4000])" for rest
    using step [of scripted "?busy # ?busy # ?ok # rest" "?cfg 1" too_many_requests "?busy # ?ok # rest"] a3
    by (simp add: BASE_DELAY_def numeral_2_eq_2)
  have a1: "client scripted get_forms_config [?busy, ?busy, ?busy, ?ok] = (?ok, [], [1000, 2000, 4000])"
    using step [of scripted "[?busy, ?busy, ?busy, ?ok]" get_forms_config too_many_requests "[?busy, ?busy, ?ok]"] a2
    by (simp add: BASE_DELAY_def)
  have b4: "client scripted (?cfg 3) (?busy # rest)
      = (Inl (ThrownAxios (too_many_requests \<lparr> config := Some (?cfg 3) \<rparr>)), rest, [])" for rest
    using step [of scripted "?busy # rest" "?cfg 3" too_many_requests rest]
    by simp
  have b3: "client scripted (?cfg 2) (?busy # ?busy # rest)
      = (Inl (ThrownAxios (too_many_requests \<lparr> config := Some (?cfg 3) \<rparr>)), rest, [4000])" for rest
    using step [of scripted "?busy # ?busy # rest" "?cfg 2" too_many_requests "?busy # rest"] b4
    by (simp add: BASE_DELAY_def)
  have b2: "client scripted (?cfg 1) (?busy # ?busy # ?busy # rest)
      = (Inl (ThrownAxios (too_many_requests \<lparr> config := Some (?cfg 3) \<rparr>)), rest, [2000, 4000])" for rest
    using step [of scripted "?busy # ?busy # ?busy # rest" "?cfg 1" too_many_requests "?busy # ?busy # rest"] b3
    by (simp add: BASE_DELAY_def numeral_2_eq_2)
  have b1: "client scripted get_forms_config [?busy, ?busy, ?busy, ?busy, ?ok]
      = (Inl (ThrownAxios (too_many_requests \<lparr> config := Some (?cfg 3) \<rparr>)), [?ok], [1000, 2000, 4000])"
    using step [of scripted "[?busy, ?busy, ?busy, ?busy, ?ok]" get_forms_config too_many_requests "[?busy, ?busy, ?busy, ?ok]"] b2
    by (simp add: BASE_DELAY_def)
  have c: "client scripted get_forms_config [Inl (ThrownAxios not_found), ?ok]
       = (Inl (ThrownAxios (not_found \<lparr> config := Some (?cfg 0) \<rparr>)), [?ok], [])"
    using step [of scripted "[Inl (ThrownAxios not_found), ?ok]" get_forms_config not_found "[?ok]"]
    by simp
  from i a1 b1 c show ?thesis by simp
qed

text \<open>
  A request is resubmitted at most three times, and the delays of one call of the client
  add up to at most 7000 ms.
\<close>

lemma power_le_8: "k \<le> 3 \<Longrightarrow> (2::nat) ^ k \<le> 8"
  using power_increasing [of k 3 "2::nat"] by simp

lemma client_delays_bounded:
  "client adapter cfg s = (res, s', delays) \<Longrightarrow>
     length delays \<le> MAX_RETRIES - retries cfg \<and>
     sum_list delays + BASE_DELAY * 2 ^ min 3 (retries cfg) \<le> 8000"
proof (induction adapter cfg s arbitrary: res s' delays rule: client.induct)
  case (1 adapter cfg s)
  obtain out s1 where a: "adapter s cfg = (out, s1)" by (cases "adapter s cfg")
  show ?case
  proof (cases out)
    case (Inr d)
    with a "1.prems" show ?thesis
      by (auto simp: client.simps BASE_DELAY_def min_def numeral_3_eq_3 power_le_8)
  next
    case (Inl t)
    show ?thesis
    proof (cases t)
      case (ThrownError m)
      with a Inl "1.prems" show ?thesis
        by (auto simp: client.simps BASE_DELAY_def min_def numeral_3_eq_3 power_le_8)
    next
      case (ThrownAxios e)
      show ?thesis
      proof (cases "retryable e \<and> retries cfg < 3")
        case False
        with a Inl ThrownAxios "1.prems" client_reject [of adapter s cfg e s1]
        show ?thesis
          by (auto simp: BASE_DELAY_def min_def numeral_3_eq_3 power_le_8)
      next
        case True
        let ?cfg' = "cfg \<lparr> retryCount := Some (Suc (retries cfg)) \<rparr>"
        obtain r s2 ds where rec: "client adapter ?cfg' s1 = (r, s2, ds)"
          by (cases "client adapter ?cfg' s1") auto
        have icpt: "retry_interceptor (e \<lparr> config := Some cfg \<rparr>)
            = Resubmit (BASE_DELAY * 2 ^ (Suc (retries cfg) - 1)) ?cfg'"
          using True by (simp add: retry_interceptor_Some)
        from "1.IH" [OF a [symmetric] _ _ icpt rec] Inl ThrownAxios
        have IH: "length ds \<le> MAX_RETRIES - retries ?cfg'"
          "sum_list ds + BASE_DELAY * 2 ^ min 3 (retries ?cfg') \<le> 8000"
          by simp_all
        have r': "retries ?cfg' = Suc (retries cfg)" by (simp add: retries_def)
        from True a Inl ThrownAxios rec client_retry [of adapter s cfg e s1] "1.prems"
        have d: "delays = BASE_DELAY * 2 ^ retries cfg # ds" by simp
        from True consider "retries cfg = 0" | "retries cfg = 1" | "retries cfg = 2"
          by linarith
        then show ?thesis
          using IH r' d by cases (simp_all add: MAX_RETRIES_def BASE_DELAY_def)
      qed
    qed
  qed
qed

lemma client_delays_at_most_7s:
  assumes "client adapter cfg s = (res, s', delays)"
  shows "length delays \<le> 3 \<and> sum_list delays \<le> 7000"
proof -
  define x :: nat where "x = 2 ^ min 3 (retries cfg)"
  have x: "1 \<le> x" by (simp add: x_def)
  from client_delays_bounded [OF assms]
  have "length delays \<le> 3 - retries cfg" and "sum_list delays + 1000 * x \<le> 8000"
    by (simp_all add: MAX_RETRIES_def BASE_DELAY_def x_def)
  with x show ?thesis by linarith
qed

section \<open>Properties of the listing\<close>

lemma mset_insort_forms: "mset (insort_forms cmp a bs) = add_mset a (mset bs)"
  by (induction bs) auto

lemma mset_sort_forms: "mset (sort_forms cmp forms) = mset forms"
  by (induction forms) (auto simp: sort_forms_def mset_insort_forms)

lemma set_insort_forms: "set (insort_forms cmp a bs) = insert a (set bs)"
  by (induction bs) auto

lemma sorted_insort_forms:
  assumes "consistent cmp" "sorted_wrt (by_name cmp) bs"
  shows "sorted_wrt (by_name cmp) (insort_forms cmp a bs)"
  using assms(2)
proof (induction bs)
  case Nil
  then show ?case by simp
next
  case (Cons b bs)
  have total: "\<And>x y. cmp x y \<le> 0 \<or> cmp y x \<le> 0"
    and trans: "\<And>x y z. cmp x y \<le> 0 \<Longrightarrow> cmp y z \<le> 0 \<Longrightarrow> cmp x z \<le> 0"
    using assms(1) unfolding consistent_def by blast+
  show ?case
  proof (cases "cmp (form_name a) (form_name b) \<le> 0")
    case True
    then have "\<forall>x \<in> set (b # bs). by_name cmp a x"
      using Cons.prems trans by (auto simp: by_name_def)
    with True Cons.prems show ?thesis by simp
  next
    case False
    then have "by_name cmp b a"
      using total [of "form_name a" "form_name b"] by (simp add: by_name_def)
    with False Cons show ?thesis
      by (auto simp: set_insort_forms)
  qed
qed

lemma sorted_sort_forms: "consistent cmp \<Longrightarrow> sorted_wrt (by_name cmp) (sort_forms cmp forms)"
  by (induction forms) (auto simp: sort_forms_def sorted_insort_forms)

lemma code_unit_compare_total: "code_unit_compare a b \<le> 0 \<or> code_unit_compare b a \<le> 0"
proof (induction a b rule: code_unit_compare.induct)
  case (4 x xs y ys)
  then show ?case by (cases "(of_char x :: nat) < of_char y"; cases "(of_char y :: nat) < of_char x"; simp)
qed simp_all

lemma code_unit_compare_trans:
  "code_unit_compare a b \<le> 0 \<Longrightarrow> code_unit_compare b c \<le> 0 \<Longrightarrow> code_unit_compare a c \<le> 0"
proof (induction a b arbitrary: c rule: code_unit_compare.induct)
  case 1
  then show ?case by simp
next
  case (2 y ys)
  then show ?case by (cases c) simp_all
next
  case (3 x xs)
  then show ?case by simp
next
  case (4 x xs y ys)
  show ?case
  proof (cases c)
    case Nil
    with 4 show ?thesis by (simp split: if_splits)
  next
    case (Cons z zs)
    let ?x = "of_char x :: nat" and ?y = "of_char y :: nat" and ?z = "of_char z :: nat"
    from "4.prems"(1) have xy: "?x \<le> ?y" by (simp split: if_splits)
    from "4.prems"(2) Cons have yz: "?y \<le> ?z" by (simp split: if_splits)
    show ?thesis
    proof (cases "?x < ?z")
      case True
      with Cons show ?thesis by simp
    next
      case False
      with xy yz have n: "\<not> ?x < ?y" "\<not> ?y < ?x" "\<not> ?y < ?z" "\<not> ?z < ?y" "\<not> ?z < ?x"
        by linarith+
      with "4.prems" Cons have "code_unit_compare xs ys \<le> 0" "code_unit_compare ys zs \<le> 0"
        by simp_all
      with "4.IH" n have "code_unit_compare xs zs \<le> 0" by simp
      with n False Cons show ?thesis by simp
    qed
  qed
qed

lemma consistent_code_unit_compare: "consistent code_unit_compare"
  unfolding consistent_def
  using code_unit_compare_total code_unit_compare_trans by blast

lemma listForms_loop_done:
  "listForms_loop parseURL adapter cl [] forms s = Some (Inr forms, s)"
  by (simp add: listForms_loop.simps)

lemma listForms_loop_failed:
  "u \<noteq> [] \<Longrightarrow> client_get adapter cl u s = (Inl t, s', delays) \<Longrightarrow>
     listForms_loop parseURL adapter cl u forms s = Some (Inl t, s')"
  by (subst listForms_loop.simps) simp

lemma listForms_loop_page:
  "u \<noteq> [] \<Longrightarrow> client_get adapter cl u s = (Inr page, s', delays) \<Longrightarrow>
     listForms_loop parseURL adapter cl u forms s =
       (let forms' = (case embedded_forms page of
                        None \<Rightarrow> forms
                      | Some pageForms \<Rightarrow> forms @ map summary pageForms);
            href = or_else (next_href page) []
        in if href \<noteq> [] \<and> startsWith href ''http'' then
             (case parseURL href of
                None \<Rightarrow> Some (Inl (ThrownError ''Invalid URL''), s')
              | Some (pathname, search) \<Rightarrow>
                  listForms_loop parseURL adapter cl (pathname @ search) forms' s')
           else listForms_loop parseURL adapter cl href forms' s')"
  by (subst listForms_loop.simps) simp

lemma client_get_answered:
  "adapter s (request_config cl ''get'' u None) = (Inr page, s') \<Longrightarrow>
     client_get adapter cl u s = (Inr page, s', [])"
  by (simp add: client_get_def client.simps)

lemma client_get_not_found:
  "adapter s (request_config cl ''get'' u None) = (Inl (ThrownAxios not_found), s') \<Longrightarrow>
     client_get adapter cl u s =
       (Inl (ThrownAxios (not_found
          \<lparr> config := Some ((request_config cl ''get'' u None) \<lparr> retryCount := Some 0 \<rparr>) \<rparr>)),
        s', [])"
  unfolding client_get_def
  by (subst client_not_retried [where e = not_found and ?s1.0 = s'
        and r = "\<lparr> status = 404, error_description = None, data_message = None \<rparr>"])
     (simp_all add: not_found_def retries_def request_config_def)

text \<open>
  Claim C3. The base URL of the client ends in \<^verbatim>\<open>/v1\<close>, and the collection request
  is a path below it. An absolute next link of the same API has that prefix in its
  \<open>pathname\<close> already, so the path that \<open>listForms\<close> requests for it reaches the
  address with the prefix doubled, not the address of the link. Against a server that
  holds the pages of a 2, 2, 1 listing at the addresses it advertises, \<open>listForms\<close>
  throws ``Forms endpoint not found for Dev US'' after two requests when the link to
  page 2 is absolute, and returns the five summaries, sorted, after three requests when
  the same link is given relative to the base URL.
\<close>

theorem listForms_absolute_next_link_requests_doubled_path:
  "listForms token_t1 0 250 example_URL code_unit_compare (listing_server page1) env_dev Map.empty 0
     = Some (Inl ''Forms endpoint not found for Dev US'',
             Map.empty(cacheKey env_dev \<mapsto> \<lparr> token = ''t1'', expiresAt = 3600250 \<rparr>), 2)
   \<and> next_href page1
       = Some ''https://api.pingone.eu/v1/environments/11111111-2222-3333-4444-555555555555/forms?cursor=p2''
   \<and> request_address (request_config api_client_t1 ''get'' (link_pathname @ link_search) None)
       = ''https://api.pingone.eu/v1/v1/environments/11111111-2222-3333-4444-555555555555/forms?cursor=p2''
   \<and> listForms token_t1 0 250 example_URL code_unit_compare (listing_server page1_relative)
         env_dev Map.empty 0
       = Some (Inr [form_summary ''f-5'' ''address'', form_summary ''f-3'' ''consent'',
                    form_summary ''f-2'' ''login'', form_summary ''f-4'' ''profile'',
                    form_summary ''f-1'' ''registration''],
               Map.empty(cacheKey env_dev \<mapsto> \<lparr> token = ''t1'', expiresAt = 3600250 \<rparr>), 3)"
proof -
  let ?cache = "Map.empty(cacheKey env_dev \<mapsto> \<lparr> token = ''t1'', expiresAt = 3600250 \<rparr>)"
  let ?doubled = "link_pathname @ link_search"
  let ?second = "relative_link_p2"
  have create: "createApiClient token_t1 0 250 env_dev Map.empty
      = (Inr api_client_t1, ?cache, [tokenRequest env_dev])"
    by (simp add: createApiClient_def getAccessToken_def token_t1_def api_client_t1_def
        buildApiUrl_def env_dev_def)
  have nm: "name env_dev = ''Dev US''"
    by (simp add: env_dev_def)
  have start: "''/environments/'' @ envId env_dev @ ''/forms'' = forms_path"
    by (simp add: env_dev_def forms_path_def)
  have ne: "forms_path \<noteq> []" "relative_link \<noteq> []" "?doubled \<noteq> []" "?second \<noteq> []"
    "absolute_link \<noteq> []"
    by (simp_all add: forms_path_def relative_link_def relative_link_p2_def link_search_def
        absolute_link_def)
  have links: "startsWith absolute_link ''http''" "\<not> startsWith relative_link ''http''"
    "\<not> startsWith ?second ''http''"
    by (simp_all add: startsWith_def absolute_link_def relative_link_def relative_link_p2_def
        forms_path_def)
  have conv: "example_URL absolute_link = Some (link_pathname, link_search)"
    by (simp add: example_URL_def)
  have a1: "listing_server p n (request_config api_client_t1 ''get'' forms_path None)
      = (Inr p, Suc n)" for p n
    by (simp add: listing_server_def request_address_def request_config_def api_client_t1_def)
  have a2: "listing_server p n (request_config api_client_t1 ''get'' ?doubled None)
      = (Inl (ThrownAxios not_found), Suc n)" for p n
    by (simp add: listing_server_def request_address_def request_config_def api_client_t1_def
        absolute_link_def relative_link_def forms_path_def link_pathname_def link_search_def)
  have a3: "listing_server p n (request_config api_client_t1 ''get'' ?second None)
      = (Inr page2, Suc n)" for p n
    by (simp add: listing_server_def request_address_def request_config_def api_client_t1_def
        absolute_link_def forms_path_def relative_link_p2_def)
  have a4: "listing_server p n (request_config api_client_t1 ''get'' relative_link None)
      = (Inr page3, Suc n)" for p n
    by (simp add: listing_server_def request_address_def request_config_def api_client_t1_def
        absolute_link_def relative_link_def forms_path_def)
  have h1: "or_else (next_href page1) [] = absolute_link"
    "or_else (next_href page1_relative) [] = ?second"
    "or_else (next_href page2) [] = relative_link"
    "or_else (next_href page3) [] = []"
    by (simp_all add: or_else_def page1_def page1_relative_def page2_def page3_def
        absolute_link_def relative_link_def relative_link_p2_def forms_path_def)
  have g1: "client_get (listing_server p) api_client_t1 forms_path n = (Inr p, Suc n, [])" for p n
    using a1 by (simp add: client_get_def client.simps)
  have g2: "client_get (listing_server p) api_client_t1 ?doubled n
      = (Inl (ThrownAxios (not_found \<lparr> config := Some
            ((request_config api_client_t1 ''get'' ?doubled None) \<lparr> retryCount := Some 0 \<rparr>) \<rparr>)),
         Suc n, [])" for p n
    by (rule client_get_not_found) (rule a2)
  have g3: "client_get (listing_server p) api_client_t1 ?second n = (Inr page2, Suc n, [])" for p n
    using a3 by (simp add: client_get_def client.simps)
  have g4: "client_get (listing_server p) api_client_t1 relative_link n = (Inr page3, Suc n, [])" for p n
    using a4 by (simp add: client_get_def client.simps)
  have e: "embedded_forms page1 = Some [remote_form ''f-1'' ''registration'', remote_form ''f-2'' ''login'']"
    "embedded_forms page1_relative = Some [remote_form ''f-1'' ''registration'', remote_form ''f-2'' ''login'']"
    "embedded_forms page2 = Some [remote_form ''f-3'' ''consent'', remote_form ''f-4'' ''profile'']"
    "embedded_forms page3 = Some [remote_form ''f-5'' ''address'']"
    by (simp_all add: page1_def page1_relative_def page2_def page3_def)
  have sm: "summary (remote_form i n) = form_summary i n" for i n
    by (simp add: summary_def remote_form_def form_summary_def)
  \<comment> \<open>the absolute link: the second request goes to the doubled path and is answered 404\<close>
  have s2: "listForms_loop example_URL (listing_server page1) api_client_t1 ?doubled forms n
      = Some (Inl (ThrownAxios (not_found \<lparr> config := Some
            ((request_config api_client_t1 ''get'' ?doubled None) \<lparr> retryCount := Some 0 \<rparr>) \<rparr>)),
          Suc n)" for forms n
    by (rule listForms_loop_failed [OF ne(3) g2])
  have s1: "listForms_loop example_URL (listing_server page1) api_client_t1 forms_path [] 0
      = Some (Inl (ThrownAxios (not_found \<lparr> config := Some
            ((request_config api_client_t1 ''get'' ?doubled None) \<lparr> retryCount := Some 0 \<rparr>) \<rparr>)),
          Suc (Suc 0))"
    using listForms_loop_page [where adapter = "listing_server page1" and cl = api_client_t1
        and u = forms_path and s = 0 and page = page1 and ?s' = "Suc 0" and delays = "[]"
        and parseURL = example_URL and forms = "[]", OF ne(1) g1]
    by (simp add: Let_def h1 links conv e s2 ne)
  have abs_result: "listForms token_t1 0 250 example_URL code_unit_compare (listing_server page1)
        env_dev Map.empty 0
      = Some (Inl ''Forms endpoint not found for Dev US'', ?cache, 2)"
    unfolding listForms_def start create
    by (simp add: s1 listForms_catch_def not_found_def nm)
  \<comment> \<open>the same pages linked relatively\<close>
  have r3: "listForms_loop example_URL (listing_server p) api_client_t1 relative_link forms n
      = Some (Inr (forms @ [form_summary ''f-5'' ''address'']), Suc n)" for p forms n
    using listForms_loop_page [where adapter = "listing_server p" and cl = api_client_t1
        and u = relative_link and s = n and page = page3 and ?s' = "Suc n" and delays = "[]"
        and parseURL = example_URL and forms = forms, OF ne(2) g4]
    by (simp add: h1 e sm listForms_loop_done)
  have r2: "listForms_loop example_URL (listing_server p) api_client_t1 ?second forms n
      = Some (Inr (forms @ [form_summary ''f-3'' ''consent'', form_summary ''f-4'' ''profile'',
                            form_summary ''f-5'' ''address'']), Suc (Suc n))" for p forms n
    using listForms_loop_page [where adapter = "listing_server p" and cl = api_client_t1
        and u = ?second and s = n and page = page2 and ?s' = "Suc n" and delays = "[]"
        and parseURL = example_URL and forms = forms, OF ne(4) g3]
    by (simp add: h1 links e sm r3 ne)
  have r1: "listForms_loop example_URL (listing_server page1_relative) api_client_t1 forms_path [] 0
      = Some (Inr [form_summary ''f-1'' ''registration'', form_summary ''f-2'' ''login'',
                   form_summary ''f-3'' ''consent'', form_summary ''f-4'' ''profile'',
                   form_summary ''f-5'' ''address''], Suc (Suc (Suc 0)))"
    using listForms_loop_page [where adapter = "listing_server page1_relative"
        and cl = api_client_t1 and u = forms_path and s = 0 and page = page1_relative
        and ?s' = "Suc 0" and delays = "[]" and parseURL = example_URL and forms = "[]",
        OF ne(1) g1]
    by (simp add: Let_def h1 links e sm r2 ne)
  have srt: "sort_forms code_unit_compare
        [form_summary ''f-1'' ''registration'', form_summary ''f-2'' ''login'',
         form_summary ''f-3'' ''consent'', form_summary ''f-4'' ''profile'',
         form_summary ''f-5'' ''address'']
      = [form_summary ''f-5'' ''address'', form_summary ''f-3'' ''consent'',
         form_summary ''f-2'' ''login'', form_summary ''f-4'' ''profile'',
         form_summary ''f-1'' ''registration'']"
    by (simp add: sort_forms_def form_summary_def)
  have rel_result: "listForms token_t1 0 250 example_URL code_unit_compare
        (listing_server page1_relative) env_dev Map.empty 0
      = Some (Inr [form_summary ''f-5'' ''address'', form_summary ''f-3'' ''consent'',
                   form_summary ''f-2'' ''login'', form_summary ''f-4'' ''profile'',
                   form_summary ''f-1'' ''registration''], ?cache, 3)"
    unfolding listForms_def start create
    by (simp add: r1 srt numeral_3_eq_3)
  have link: "next_href page1
       = Some ''https://api.pingone.eu/v1/environments/11111111-2222-3333-4444-555555555555/forms?cursor=p2''"
    by (simp add: page1_def absolute_link_def forms_path_def)
  have addr: "request_address (request_config api_client_t1 ''get'' ?doubled None)
       = ''https://api.pingone.eu/v1/v1/environments/11111111-2222-3333-4444-555555555555/forms?cursor=p2''"
    by (simp add: request_address_def request_config_def api_client_t1_def forms_path_def
        link_pathname_def link_search_def)
  from abs_result link addr rel_result show ?thesis by blast
qed

section \<open>Properties of the error messages\<close>

lemma sublist_skip: "sublist xs ys \<Longrightarrow> sublist xs (zs @ ys)"
  by (metis append_assoc sublist_def)

lemma sublist_here: "sublist xs (xs @ ys)"
  by simp


lemma listForms_catch_names_env: "sublist (name env) (listForms_catch env t)"
  unfolding listForms_catch_def Let_def
  by (cases t) (auto intro!: sublist_skip sublist_here simp del: append_Cons append_Nil)

lemma downloadForm_catch_names_env: "sublist (name env) (downloadForm_catch env formId t)"
  unfolding downloadForm_catch_def Let_def
  by (cases t) (auto intro!: sublist_skip sublist_here simp del: append_Cons append_Nil)

lemma uploadForm_catch_names_env:
  "(\<And>e r. t = ThrownAxios e \<Longrightarrow> response e = Some r \<Longrightarrow> status r \<noteq> 400) \<Longrightarrow>
     sublist (name env) (uploadForm_catch env formData t)"
  unfolding uploadForm_catch_def Let_def
  by (cases t) (auto intro!: sublist_skip sublist_here simp del: append_Cons append_Nil)

lemma downloadForm_error_names_env:
  "fst (downloadForm post now now' adapter env formId cache s) = Inl msg \<Longrightarrow>
     sublist (name env) msg"
  by (auto simp: downloadForm_def downloadForm_catch_names_env
      split: prod.splits sum.splits)

lemma listForms_error_names_env:
  "listForms post now now' parseURL localeCompare adapter env cache s = Some (Inl msg, cache', s') \<Longrightarrow>
     sublist (name env) msg"
  by (auto simp: listForms_def listForms_catch_names_env
      split: prod.splits sum.splits option.splits)



text \<open>
  Claim C5. The errors of \<open>listForms\<close> and \<open>downloadForm\<close> all carry the
  environment's display name, and so do those of \<open>uploadForm\<close> for every status but
  400 (the lemmas above). For status 400 \<open>uploadForm\<close> throws ``Invalid form
  data for "<form name>": <message>'', which does not mention the environment: uploading
  the form ``login'' to ``Dev US'' with a 400 answer gives a message in which ``Dev US''
  does not occur.
\<close>

theorem uploadForm_400_omits_environment_name:
  "uploadForm token_t1 0 250 scripted env_dev login_form Map.empty
       [Inl (ThrownAxios bad_request) :: thrown + FormData]
     = (Inl (''Invalid form data for '' @ dq @ ''login'' @ dq @ '': components must not be empty''),
        Map.empty(cacheKey env_dev \<mapsto> \<lparr> token = ''t1'', expiresAt = 3600250 \<rparr>), [])
   \<and> name env_dev = ''Dev US''
   \<and> \<not> sublist ''Dev US''
         (''Invalid form data for '' @ dq @ ''login'' @ dq @ '': components must not be empty'')"
proof -
  have "client_post scripted api_client_t1 (''/environments/'' @ envId env_dev @ ''/forms'') login_form
          [Inl (ThrownAxios bad_request) :: thrown + FormData]
        = (Inl (ThrownAxios (bad_request \<lparr> config := Some ((request_config api_client_t1 ''post''
            (''/environments/'' @ envId env_dev @ ''/forms'') (Some login_form))
              \<lparr> retryCount := Some 0 \<rparr>) \<rparr>)), [], [])"
    unfolding client_post_def
    by (subst client_not_retried [where e = bad_request and ?s1.0 = "[]"
          and r = "\<lparr> status = 400, error_description = None,
                       data_message = Some ''components must not be empty'' \<rparr>"])
       (simp_all add: bad_request_def retries_def request_config_def)
  moreover have "createApiClient token_t1 0 250 env_dev Map.empty
      = (Inr api_client_t1,
         Map.empty(cacheKey env_dev \<mapsto> \<lparr> token = ''t1'', expiresAt = 3600250 \<rparr>),
         [tokenRequest env_dev])"
    by (simp add: createApiClient_def getAccessToken_def token_t1_def api_client_t1_def
        buildApiUrl_def env_dev_def)
  ultimately have "uploadForm token_t1 0 250 scripted env_dev login_form Map.empty
       [Inl (ThrownAxios bad_request) :: thrown + FormData]
     = (Inl (''Invalid form data for '' @ dq @ ''login'' @ dq @ '': components must not be empty''),
        Map.empty(cacheKey env_dev \<mapsto> \<lparr> token = ''t1'', expiresAt = 3600250 \<rparr>), [])"
    by (simp add: uploadForm_def uploadForm_catch_def bad_request_def api_message_def
        or_else_def shown_name_def login_form_def)
  moreover have "\<not> sublist ''Dev US''
         (''Invalid form data for '' @ dq @ ''login'' @ dq @ '': components must not be empty'')"
    by (simp add: dq_def sublist_Cons_right)
  ultimately show ?thesis by (simp add: env_dev_def)
qed

section \<open>Properties of the batches\<close>

text \<open>
  Claim C6 as stated fails for the export batch. With two forms selected and the download
  of the first one failing, \<open>downloadForms\<close> throws ``Failed to download form
  "registration" (f-1): ...'' after one download: the second form, whose download would
  have succeeded, is never attempted.
\<close>

theorem downloadForms_first_failure_blocks_later_forms:
  "downloadForms first_download_fails save_to_forms_dir
       [form_summary ''f-1'' ''registration'', form_summary ''f-2'' ''login''] [] 0
     = (Inl (''Failed to download form '' @ dq @ ''registration'' @ dq
             @ '' (f-1): Form f-1 not found in Dev US''), 1, [''f-1''])
   \<and> ''f-2'' \<notin> set (snd (snd (downloadForms first_download_fails save_to_forms_dir
       [form_summary ''f-1'' ''registration'', form_summary ''f-2'' ''login''] [] 0)))"
  by (simp add: first_download_fails_def form_summary_def download_failure_def)

lemma load_forms_call_each:
  "load_forms load localForms w =
     (case call_each load (map filename localForms) w of
        (outs, w') \<Rightarrow>
          (successes (zip localForms outs),
           map (\<lambda>(localForm, msg).
                  \<lparr> failed_filename = filename localForm,
                    failed_error = ''Failed to load file: '' @ msg \<rparr>)
               (failures (zip localForms outs)),
           w'))"
proof (induction localForms arbitrary: w)
  case Nil
  then show ?case by simp
next
  case (Cons localForm rest)
  obtain out w1 where l: "load w (filename localForm) = (out, w1)"
    by (cases "load w (filename localForm)")
  obtain outs w2 where c: "call_each load (map filename rest) w1 = (outs, w2)"
    by (cases "call_each load (map filename rest) w1")
  from Cons.IH [of w1] c
  have IH: "load_forms load rest w1 =
      (successes (zip rest outs),
       map (\<lambda>(localForm, msg).
              \<lparr> failed_filename = filename localForm,
                failed_error = ''Failed to load file: '' @ msg \<rparr>)
           (failures (zip rest outs)), w2)"
    by simp
  show ?case
    by (cases out) (simp_all add: l c IH del: append.simps)
qed

lemma upload_loop_call_each:
  "upload_loop upload nameMap formsWithData w =
     (case call_each upload (map (named_form nameMap) formsWithData) w of
        (outs, w') \<Rightarrow>
          (map (\<lambda>(entry, r). filename (fst entry)) (successes (zip formsWithData outs)),
           map (\<lambda>(entry, msg). \<lparr> failed_filename = filename (fst entry), failed_error = msg \<rparr>)
               (failures (zip formsWithData outs)),
           w', map (named_form nameMap) formsWithData))"
proof (induction formsWithData arbitrary: w)
  case Nil
  then show ?case by simp
next
  case (Cons entry rest)
  obtain localForm formData where e: "entry = (localForm, formData)" by (cases entry)
  obtain out w1 where u: "upload w (named_form nameMap entry) = (out, w1)"
    by (cases "upload w (named_form nameMap entry)")
  obtain outs w2 where c: "call_each upload (map (named_form nameMap) rest) w1 = (outs, w2)"
    by (cases "call_each upload (map (named_form nameMap) rest) w1")
  have nf: "named_form nameMap (localForm, formData)
      = formData \<lparr> fd_name := Some (or_else (nameMap (filename localForm))
          (or_else (fd_name formData) (lf_name localForm))) \<rparr>"
    by (simp add: named_form_def)
  from u e have u': "upload w (named_form nameMap (localForm, formData)) = (out, w1)"
    by simp
  have step: "upload_loop upload nameMap (entry # rest) w =
      (case upload w (named_form nameMap (localForm, formData)) of
         (Inr r, w1) \<Rightarrow>
           (case upload_loop upload nameMap rest w1 of
              (successful, failed, w2, attempted) \<Rightarrow>
                (filename localForm # successful, failed, w2,
                 named_form nameMap (localForm, formData) # attempted))
       | (Inl errorMessage, w1) \<Rightarrow>
           (case upload_loop upload nameMap rest w1 of
              (successful, failed, w2, attempted) \<Rightarrow>
                (successful,
                 \<lparr> failed_filename = filename localForm, failed_error = errorMessage \<rparr> # failed,
                 w2, named_form nameMap (localForm, formData) # attempted)))"
    unfolding e nf by (simp add: Let_def)
  show ?case
    unfolding step
    by (cases out) (simp_all add: e u' c Cons.IH [of w1])
qed

lemma downloadForms_all_exported:
  "call_each (export_one download save) forms w = (map Inr paths, w') \<Longrightarrow>
     downloadForms download save forms downloadedFiles w
       = (Inr (downloadedFiles @ filter (\<lambda>filePath. filePath \<noteq> []) paths), w', map form_id forms)"
proof (induction forms arbitrary: w paths downloadedFiles)
  case Nil
  then show ?case by simp
next
  case (Cons form rest)
  obtain out w1 where s: "export_one download save w form = (out, w1)"
    by (cases "export_one download save w form")
  obtain outs w2 where c: "call_each (export_one download save) rest w1 = (outs, w2)"
    by (cases "call_each (export_one download save) rest w1")
  from Cons.prems s c obtain filePath paths' where p: "paths = filePath # paths'"
    "out = Inr filePath" "outs = map Inr paths'" "w2 = w'"
    by (cases paths) auto
  from s p(2) obtain rawFormData wd where d: "download w (form_id form) = (Inr rawFormData, wd)"
    "save wd (transformFormForExport rawFormData) (sanitizedName (form_name form) @ ''.json'')
       = (Inr filePath, w1)"
    by (auto simp: export_one_def split: prod.splits sum.splits)
  from c p have c': "call_each (export_one download save) rest w1 = (map Inr paths', w')" by simp
  show ?case
    by (simp add: d p(1) Cons.IH [OF c'])
qed

lemma downloadForms_first_failure:
  "call_each (export_one download save) before w = (map Inr paths, w1) \<Longrightarrow>
   export_one download save w1 form = (Inl msg, w2) \<Longrightarrow>
     downloadForms download save (before @ form # after) downloadedFiles w
       = (Inl (download_failure form msg), w2, map form_id before @ [form_id form])"
proof (induction before arbitrary: w paths downloadedFiles)
  case Nil
  then show ?case
    by (auto simp: export_one_def split: prod.splits sum.splits)
next
  case (Cons first rest)
  obtain out wa where s: "export_one download save w first = (out, wa)"
    by (cases "export_one download save w first")
  obtain outs wb where c: "call_each (export_one download save) rest wa = (outs, wb)"
    by (cases "call_each (export_one download save) rest wa")
  from Cons.prems(1) s c obtain filePath paths' where p: "paths = filePath # paths'"
    "out = Inr filePath" "outs = map Inr paths'" "wb = w1"
    by (cases paths) auto
  from s p(2) obtain rawFormData wd where d: "download w (form_id first) = (Inr rawFormData, wd)"
    "save wd (transformFormForExport rawFormData) (sanitizedName (form_name first) @ ''.json'')
       = (Inr filePath, wa)"
    by (auto simp: export_one_def split: prod.splits sum.splits)
  from c p have c': "call_each (export_one download save) rest wa = (map Inr paths', w1)" by simp
  show ?case
    by (simp add: d Cons.IH [OF c' Cons.prems(2)])
qed

text \<open>
  Claim C6, amended. Import batch: \<open>uploadForms\<close> loads every selected file, whatever
  the earlier loads did; when no file could be loaded it returns the load failures; when
  the names have been collected it calls \<open>uploadForm\<close> for every loaded form, in order,
  whatever the earlier uploads did. Its result lists in \<open>successful\<close> the files whose
  upload succeeded and in \<open>failed\<close>, each under its filename and with its message, the
  files that could not be loaded and those whose upload failed. Export batch: when every
  form is downloaded and saved, \<open>downloadForms\<close> returns the saved paths; when the forms
  before one are downloaded and saved and that one fails, \<open>downloadForms\<close> throws
  ``Failed to download form "<name>" (<id>): <message>'' for it, and the world is left as
  it is after the failing call: no form after it is attempted.
\<close>

theorem import_batch_continues_export_batch_stops:
  "(call_each load (map filename localForms) w = (loaded, w1) \<and>
    successes (zip localForms loaded) \<noteq> [] \<and>
    promptForMultipleFormNames w1 (successes (zip localForms loaded)) = (Inr nameMap, w2) \<and>
    call_each upload (map (named_form nameMap) (successes (zip localForms loaded))) w2
      = (uploaded, w3) \<longrightarrow>
      uploadForms load promptForMultipleFormNames upload localForms w
        = (Inr (map (\<lambda>(entry, r). filename (fst entry))
                  (successes (zip (successes (zip localForms loaded)) uploaded)),
                map (\<lambda>(localForm, msg).
                       \<lparr> failed_filename = filename localForm,
                         failed_error = ''Failed to load file: '' @ msg \<rparr>)
                    (failures (zip localForms loaded))
                @ map (\<lambda>(entry, msg).
                         \<lparr> failed_filename = filename (fst entry), failed_error = msg \<rparr>)
                      (failures (zip (successes (zip localForms loaded)) uploaded))),
           w3, map (named_form nameMap) (successes (zip localForms loaded))))
   \<and> (call_each load (map filename localForms) w = (loaded, w1) \<and>
        successes (zip localForms loaded) = [] \<longrightarrow>
        uploadForms load promptForMultipleFormNames upload localForms w
          = (Inr ([], map (\<lambda>(localForm, msg).
                             \<lparr> failed_filename = filename localForm,
                               failed_error = ''Failed to load file: '' @ msg \<rparr>)
                          (failures (zip localForms loaded))),
             w1, []))
   \<and> (call_each (export_one download save) forms w0 = (map Inr paths, w') \<longrightarrow>
        downloadForms download save forms downloadedFiles w0
          = (Inr (downloadedFiles @ filter (\<lambda>filePath. filePath \<noteq> []) paths), w',
             map form_id forms))
   \<and> (call_each (export_one download save) before w0 = (map Inr paths, wa) \<and>
        export_one download save wa form = (Inl msg, wb) \<longrightarrow>
        downloadForms download save (before @ form # after) downloadedFiles w0
          = (Inl (download_failure form msg), wb, map form_id before @ [form_id form]))"
proof (intro conjI impI)
  assume a: "call_each load (map filename localForms) w = (loaded, w1) \<and>
    successes (zip localForms loaded) \<noteq> [] \<and>
    promptForMultipleFormNames w1 (successes (zip localForms loaded)) = (Inr nameMap, w2) \<and>
    call_each upload (map (named_form nameMap) (successes (zip localForms loaded))) w2
      = (uploaded, w3)"
  then show "uploadForms load promptForMultipleFormNames upload localForms w
        = (Inr (map (\<lambda>(entry, r). filename (fst entry))
                  (successes (zip (successes (zip localForms loaded)) uploaded)),
                map (\<lambda>(localForm, msg).
                       \<lparr> failed_filename = filename localForm,
                         failed_error = ''Failed to load file: '' @ msg \<rparr>)
                    (failures (zip localForms loaded))
                @ map (\<lambda>(entry, msg).
                         \<lparr> failed_filename = filename (fst entry), failed_error = msg \<rparr>)
                      (failures (zip (successes (zip localForms loaded)) uploaded))),
           w3, map (named_form nameMap) (successes (zip localForms loaded)))"
    by (simp add: uploadForms_def load_forms_call_each upload_loop_call_each)
next
  assume "call_each load (map filename localForms) w = (loaded, w1) \<and>
        successes (zip localForms loaded) = []"
  then show "uploadForms load promptForMultipleFormNames upload localForms w
          = (Inr ([], map (\<lambda>(localForm, msg).
                             \<lparr> failed_filename = filename localForm,
                               failed_error = ''Failed to load file: '' @ msg \<rparr>)
                          (failures (zip localForms loaded))),
             w1, [])"
    by (simp add: uploadForms_def load_forms_call_each)
next
  assume "call_each (export_one download save) forms w0 = (map Inr paths, w')"
  then show "downloadForms download save forms downloadedFiles w0
          = (Inr (downloadedFiles @ filter (\<lambda>filePath. filePath \<noteq> []) paths), w',
             map form_id forms)"
    by (rule downloadForms_all_exported)
next
  assume "call_each (export_one download save) before w0 = (map Inr paths, wa) \<and>
        export_one download save wa form = (Inl msg, wb)"
  then show "downloadForms download save (before @ form # after) downloadedFiles w0
          = (Inl (download_failure form msg), wb, map form_id before @ [form_id form])"
    by (simp add: downloadForms_first_failure)
qed

theorem import_batch_continues_export_batch_stops_witness:
  "uploadForms logged_load logged_names logged_upload
       [local_file ''a'', local_file ''b'', local_file ''c'', local_file ''d''] []
     = (Inr ([''a.json'', ''d.json''],
             [\<lparr> failed_filename = ''b.json'',
                failed_error = ''Failed to load file: Unexpected end of JSON input'' \<rparr>,
              \<lparr> failed_filename = ''c.json'',
                failed_error = ''Access denied for Dev US: Insufficient permissions to upload forms'' \<rparr>]),
        [''load a.json'', ''load b.json'', ''load c.json'', ''load d.json'', ''prompt'',
         ''upload a'', ''upload c'', ''upload d''],
        [login_form \<lparr> fd_name := Some ''a'' \<rparr>, login_form \<lparr> fd_name := Some ''c'' \<rparr>,
         login_form \<lparr> fd_name := Some ''d'' \<rparr>])
   \<and> uploadForms logged_load logged_names logged_upload [local_file ''b''] []
     = (Inr ([], [\<lparr> failed_filename = ''b.json'',
                    failed_error = ''Failed to load file: Unexpected end of JSON input'' \<rparr>]),
        [''load b.json''], [])
   \<and> downloadForms logged_download logged_save
       [form_summary ''f-1'' ''registration'', form_summary ''f-3'' ''consent''] [] []
     = (Inr [''forms/registration.json'', ''forms/consent.json''],
        [''download f-1'', ''save registration.json'', ''download f-3'', ''save consent.json''],
        [''f-1'', ''f-3''])
   \<and> downloadForms logged_download logged_save
       [form_summary ''f-1'' ''registration'', form_summary ''f-2'' ''login'',
        form_summary ''f-3'' ''consent''] [] []
     = (Inl (''Failed to download form '' @ dq @ ''login'' @ dq
             @ '' (f-2): Form f-2 not found in Dev US''),
        [''download f-1'', ''save registration.json'', ''download f-2''],
        [''f-1'', ''f-2''])"
proof -
  let ?files = "[local_file ''a'', local_file ''b'', local_file ''c'', local_file ''d'']"
  let ?loaded = "[Inr login_form, Inl ''Unexpected end of JSON input'', Inr login_form,
                  Inr login_form] :: (string + FormData) list"
  let ?w1 = "[''load a.json'', ''load b.json'', ''load c.json'', ''load d.json'']"
  let ?fwd = "[(local_file ''a'', login_form), (local_file ''c'', login_form),
               (local_file ''d'', login_form)]"
  let ?names = "map_of (map (\<lambda>(localForm, formData). (filename localForm, lf_name localForm)) ?fwd)"
  let ?w2 = "?w1 @ [''prompt'']"
  let ?denied = "''Access denied for Dev US: Insufficient permissions to upload forms''"
  let ?uploaded = "[Inr (login_form \<lparr> fd_name := Some ''a'' \<rparr>), Inl ?denied,
                    Inr (login_form \<lparr> fd_name := Some ''d'' \<rparr>)] :: (string + FormData) list"
  let ?w3 = "?w2 @ [''upload a'', ''upload c'', ''upload d'']"
  note th = import_batch_continues_export_batch_stops
  have fn: "map filename ?files = [''a.json'', ''b.json'', ''c.json'', ''d.json'']"
    by (simp add: local_file_def)
  have l: "call_each logged_load (map filename ?files) [] = (?loaded, ?w1)"
    unfolding fn by (simp add: logged_load_def)
  have sc: "successes (zip ?files ?loaded) = ?fwd"
    by simp
  have p: "logged_names ?w1 ?fwd = (Inr ?names, ?w2)"
    by (simp add: logged_names_def)
  have nf: "map (named_form ?names) ?fwd
      = [login_form \<lparr> fd_name := Some ''a'' \<rparr>, login_form \<lparr> fd_name := Some ''c'' \<rparr>,
         login_form \<lparr> fd_name := Some ''d'' \<rparr>]"
    by (simp add: named_form_def local_file_def or_else_def)
  have u: "call_each logged_upload (map (named_form ?names) ?fwd) ?w2 = (?uploaded, ?w3)"
    unfolding nf by (simp add: logged_upload_def login_form_def shown_name_def)
  have a: "uploadForms logged_load logged_names logged_upload ?files []
     = (Inr ([''a.json'', ''d.json''],
             [\<lparr> failed_filename = ''b.json'',
                failed_error = ''Failed to load file: Unexpected end of JSON input'' \<rparr>,
              \<lparr> failed_filename = ''c.json'', failed_error = ?denied \<rparr>]),
        ?w3,
        [login_form \<lparr> fd_name := Some ''a'' \<rparr>, login_form \<lparr> fd_name := Some ''c'' \<rparr>,
         login_form \<lparr> fd_name := Some ''d'' \<rparr>])"
    using th [THEN conjunct1, rule_format, where load = logged_load and localForms = ?files
        and w = "[]" and loaded = ?loaded and ?w1.0 = ?w1
        and promptForMultipleFormNames = logged_names and nameMap = ?names and ?w2.0 = ?w2
        and upload = logged_upload and uploaded = ?uploaded and ?w3.0 = ?w3]
      l p u
    unfolding sc nf
    by (simp add: local_file_def)
  have l2: "call_each logged_load (map filename [local_file ''b'']) []
      = ([Inl ''Unexpected end of JSON input''], [''load b.json''])"
    by (simp add: logged_load_def local_file_def)
  have b: "uploadForms logged_load logged_names logged_upload [local_file ''b''] []
     = (Inr ([], [\<lparr> failed_filename = ''b.json'',
                    failed_error = ''Failed to load file: Unexpected end of JSON input'' \<rparr>]),
        [''load b.json''], [])"
    using th [THEN conjunct2, THEN conjunct1, rule_format, where load = logged_load
        and localForms = "[local_file ''b'']" and w = "[]"
        and loaded = "[Inl ''Unexpected end of JSON input'']" and ?w1.0 = "[''load b.json'']"
        and promptForMultipleFormNames = logged_names and upload = logged_upload] l2
    by (simp add: local_file_def)
  have reg: "sanitizedName ''registration'' = ''registration''"
    and con: "sanitizedName ''consent'' = ''consent''"
    by (simp_all add: sanitizedName_def toLowerCase_def is_alnum_def is_space_def)
  have e1: "export_one logged_download logged_save log (form_summary ''f-1'' ''registration'')
      = (Inr ''forms/registration.json'',
         log @ [''download f-1'', ''save registration.json''])" for log
    by (simp add: export_one_def logged_download_def logged_save_def form_summary_def reg)
  have e3: "export_one logged_download logged_save log (form_summary ''f-3'' ''consent'')
      = (Inr ''forms/consent.json'', log @ [''download f-3'', ''save consent.json''])" for log
    by (simp add: export_one_def logged_download_def logged_save_def form_summary_def con)
  have e2: "export_one logged_download logged_save log (form_summary ''f-2'' ''login'')
      = (Inl ''Form f-2 not found in Dev US'', log @ [''download f-2''])" for log
    by (simp add: export_one_def logged_download_def form_summary_def)
  have c1: "call_each (export_one logged_download logged_save)
        [form_summary ''f-1'' ''registration'', form_summary ''f-3'' ''consent''] []
      = (map Inr [''forms/registration.json'', ''forms/consent.json''],
         [''download f-1'', ''save registration.json'', ''download f-3'', ''save consent.json''])"
    by (simp add: e1 e3)
  have c: "downloadForms logged_download logged_save
       [form_summary ''f-1'' ''registration'', form_summary ''f-3'' ''consent''] [] []
     = (Inr [''forms/registration.json'', ''forms/consent.json''],
        [''download f-1'', ''save registration.json'', ''download f-3'', ''save consent.json''],
        [''f-1'', ''f-3''])"
    using th [THEN conjunct2, THEN conjunct2, THEN conjunct1, rule_format, OF c1, of "[]"]
    by (simp add: form_summary_def)
  have c2: "call_each (export_one logged_download logged_save)
        [form_summary ''f-1'' ''registration''] []
      = (map Inr [''forms/registration.json''], [''download f-1'', ''save registration.json''])"
    by (simp add: e1)
  have d: "downloadForms logged_download logged_save
       [form_summary ''f-1'' ''registration'', form_summary ''f-2'' ''login'',
        form_summary ''f-3'' ''consent''] [] []
     = (Inl (''Failed to download form '' @ dq @ ''login'' @ dq
             @ '' (f-2): Form f-2 not found in Dev US''),
        [''download f-1'', ''save registration.json'', ''download f-2''],
        [''f-1'', ''f-2''])"
    using th [THEN conjunct2, THEN conjunct2, THEN conjunct2, rule_format,
        where download = logged_download and save = logged_save
        and before = "[form_summary ''f-1'' ''registration'']" and ?w0.0 = "[]"
        and paths = "[''forms/registration.json'']"
        and wa = "[''download f-1'', ''save registration.json'']"
        and form = "form_summary ''f-2'' ''login''" and msg = "''Form f-2 not found in Dev US''"
        and wb = "[''download f-1'', ''save registration.json'', ''download f-2'']"
        and after = "[form_summary ''f-3'' ''consent'']" and downloadedFiles = "[]"]
      c2 e2 [of "[''download f-1'', ''save registration.json'']"]
    by (simp add: download_failure_def form_summary_def)
  from a b c d show ?thesis by simp
qed

end
